theory Spec2Isabelle
  imports Complex_Main
begin

section \<open>Data model (types.ts, constants.ts)\<close>

text \<open>
  TypeScript \<^verbatim>\<open>number\<close> fields that hold counts, indices and millisecond or second
  settings are modelled as mathematical integers (the settings form parses them with
  \<^verbatim>\<open>parseInt\<close>); the elapsed time and the values read from \<^verbatim>\<open>Math.random()\<close> are
  rationals. A property access on \<^verbatim>\<open>undefined\<close> or
  \<^verbatim>\<open>null\<close> throws a \<^verbatim>\<open>TypeError\<close>, which the model returns as a value.
\<close>

datatype error = TypeError

datatype GameMode = Visual | Audio | Dual

record GameSettings =
  gameMode :: GameMode
  nLevel :: int
  stimulusDuration :: int
  interStimulusInterval :: int
  sessionDuration :: int
  visualMatchKey :: string
  audioMatchKey :: string

record Stimulus =
  visualPosition :: "int option"
  audioLetter :: "string option"

datatype FeedbackType = Correct | Miss | FalseAlarm

datatype Status = Idle | Settings | Running | Paused | Finished

text \<open>The two-channel objects \<^verbatim>\<open>{ visual, audio }\<close> of the source: a response slot and a
  feedback pair. The field names carry a prefix because a record field is a global name.\<close>

record Response =
  respVisual :: "bool option"
  respAudio :: "bool option"

record Feedback =
  fbVisual :: "FeedbackType option"
  fbAudio :: "FeedbackType option"

text \<open>
  The two rates of the results are the only values the code computes by division. In
  JavaScript a division by zero does not throw: \<^verbatim>\<open>0 / 0\<close> is \<^verbatim>\<open>NaN\<close> and any other
  \<^verbatim>\<open>x / 0\<close> is an infinity. The rates therefore have a type with these values, so that a
  division by zero shows in the result (in HOL, \<open>x / 0 = 0\<close>).
\<close>

datatype jsNumber = Number rat | NaN | Infinity | NegInfinity

definition jsDivide :: "int \<Rightarrow> int \<Rightarrow> jsNumber" where
  "jsDivide a b =
     (if b = 0 then (if a = 0 then NaN else if 0 < a then Infinity else NegInfinity)
      else Number (rat_of_int a / rat_of_int b))"

text \<open>\<^verbatim>\<open>x * 100\<close>: \<^verbatim>\<open>NaN\<close> and the infinities stay what they are.\<close>

definition times100 :: "jsNumber \<Rightarrow> jsNumber" where
  "times100 x = (case x of Number r \<Rightarrow> Number (r * 100) | y \<Rightarrow> y)"

record ModeResultMetrics =
  hits :: int
  misses :: int
  falseAlarms :: int
  errors :: int
  totalMatches :: int
  rate :: jsNumber

record GameResults =
  resSettings :: GameSettings
  totalTrials :: int
  resVisual :: "ModeResultMetrics option"
  resAudio :: "ModeResultMetrics option"
  overallSuccessRate :: jsNumber

text \<open>\<^verbatim>\<open>userResponses\<close> is an array after START_GAME and STOP_GAME and a plain object
  after REGISTER_RESPONSE; the code only ever reads it by index, so it is a map from index
  to slot, with \<open>None\<close> for \<^verbatim>\<open>undefined\<close>.\<close>

record GameReducerState =
  status :: Status
  settings :: "GameSettings option"
  stimulusSequence :: "Stimulus list"
  userResponses :: "int \<Rightarrow> Response option"
  currentTrial :: int
  activeVisualStimulus :: "int option"
  activeAudioStimulus :: "string option"
  feedback :: Feedback
  score :: int
  elapsedTime :: rat
  results :: "GameResults option"
  showFeedbackUntil :: int

datatype ResponseType = VisualResponse | AudioResponse

datatype GameAction =
    START_GAME GameSettings "Stimulus list"
  | RUN_GAME
  | STOP_GAME
  | PAUSE_GAME
  | RESUME_GAME
  | NEXT_TRIAL int GameSettings
  | REGISTER_RESPONSE ResponseType int GameSettings
  | SHOW_FEEDBACK Feedback int
  | CLEAR_FEEDBACK
  | UPDATE_ELAPSED_TIME rat
  | END_SESSION
  | CLEAR_VISUAL_STIMULUS

definition DEFAULT_SETTINGS :: GameSettings where
  "DEFAULT_SETTINGS =
     \<lparr>gameMode = Dual, nLevel = 2, stimulusDuration = 1500, interStimulusInterval = 2500,
      sessionDuration = 120, visualMatchKey = ''a'', audioMatchKey = ''l''\<rparr>"

definition AUDIO_LETTERS :: "string list" where
  "AUDIO_LETTERS = [''C'', ''H'', ''K'', ''L'', ''Q'', ''R'', ''S'', ''T'']"

definition GRID_SIZE :: int where
  "GRID_SIZE = 3"

definition GRID_CELL_COUNT :: int where
  "GRID_CELL_COUNT = GRID_SIZE * GRID_SIZE"

definition FEEDBACK_DURATION_MS :: int where
  "FEEDBACK_DURATION_MS = 500"

text \<open>JavaScript array access \<^verbatim>\<open>xs[i]\<close>: \<^verbatim>\<open>undefined\<close> (here \<open>None\<close>) outside the array.\<close>

definition element :: "'a list \<Rightarrow> int \<Rightarrow> 'a option" where
  "element xs i = (if 0 \<le> i \<and> i < int (length xs) then Some (xs ! nat i) else None)"

section \<open>Sequence generator (gameLogic.ts, generateSequence)\<close>

text \<open>
  The random source is the stream of values that successive calls of \<^verbatim>\<open>Math.random()\<close>
  return; the generator threads the position of the next unread value. Every value of
  \<^verbatim>\<open>Math.random()\<close> lies in \<open>[0, 1)\<close>.
\<close>

type_synonym random = "nat \<Rightarrow> rat"

definition random_source :: "random \<Rightarrow> bool" where
  "random_source rnd \<longleftrightarrow> (\<forall>k. 0 \<le> rnd k \<and> rnd k < 1)"

definition targetMatchProbability :: rat where
  "targetMatchProbability = 25 / 100"

definition getRandomVisual :: "GameMode \<Rightarrow> random \<Rightarrow> nat \<Rightarrow> int option \<times> nat" where
  "getRandomVisual gm rnd k =
     (if gm = Audio then (None, k)
      else (Some \<lfloor>rnd k * of_int GRID_CELL_COUNT\<rfloor>, Suc k))"

definition getRandomAudio :: "GameMode \<Rightarrow> random \<Rightarrow> nat \<Rightarrow> string option \<times> nat" where
  "getRandomAudio gm rnd k =
     (if gm = Visual then (None, k)
      else (Some (AUDIO_LETTERS ! nat \<lfloor>rnd k * of_nat (length AUDIO_LETTERS)\<rfloor>), Suc k))"

text \<open>
  The two \<^verbatim>\<open>do ... while\<close> loops of lines 72-74 and 83-85, entered with
  \<^verbatim>\<open>i >= nLevel\<close> and the channel enabled; \<open>nback\<close> is the value of the channel at
  \<^verbatim>\<open>sequence[i - nLevel]\<close>. A loop that redraws forever has the value \<open>None\<close>.
\<close>

partial_function (option) redrawVisual ::
  "GameMode \<Rightarrow> random \<Rightarrow> int option \<Rightarrow> nat \<Rightarrow> (int option \<times> nat) option" where
  "redrawVisual gm rnd nback k =
     (case getRandomVisual gm rnd k of
        (v, k') \<Rightarrow>
          if gm \<noteq> Audio \<and> v = nback \<and> v \<noteq> None
          then redrawVisual gm rnd nback k'
          else Some (v, k'))"

partial_function (option) redrawAudio ::
  "GameMode \<Rightarrow> random \<Rightarrow> string option \<Rightarrow> nat \<Rightarrow> (string option \<times> nat) option" where
  "redrawAudio gm rnd nback k =
     (case getRandomAudio gm rnd k of
        (a, k') \<Rightarrow>
          if gm \<noteq> Visual \<and> a = nback \<and> a \<noteq> None
          then redrawAudio gm rnd nback k'
          else Some (a, k'))"

declare redrawVisual.simps [code] redrawAudio.simps [code]

text \<open>
  The state of the \<^verbatim>\<open>for\<close> loop: the sequence built so far, the two counters, and the
  position in the random source. \<open>visualIntended\<close> and \<open>audioIntended\<close> are history
  variables: entry \<open>i\<close> records whether trial \<open>i\<close> took the match branch of line 67 or
  78. Nothing is computed from them.
\<close>

record GenState =
  sequence :: "Stimulus list"
  visualMatchesCreated :: int
  audioMatchesCreated :: int
  consumed :: nat
  visualIntended :: "bool list"
  audioIntended :: "bool list"

text \<open>The test \<^verbatim>\<open>forceMatch || Math.random() < targetMatchProbability\<close> behind the guard
  \<^verbatim>\<open>i >= nLevel && channel enabled\<close>: a random value is read only when the guard holds and
  the match is not forced.\<close>

definition decideMatch :: "bool \<Rightarrow> bool \<Rightarrow> random \<Rightarrow> nat \<Rightarrow> bool \<times> nat" where
  "decideMatch eligible force rnd k =
     (if eligible then
        (if force then (True, k) else (rnd k < targetMatchProbability, Suc k))
      else (False, k))"

text \<open>Lines 66-75. When \<^verbatim>\<open>i >= nLevel\<close> and the channel is enabled, both branches read
  \<^verbatim>\<open>sequence[i - nLevel].visualPosition\<close> (the loop in its condition, after the first
  draw), which throws when that element is \<^verbatim>\<open>undefined\<close>. The result is the value of the
  trial, whether the match branch was taken, and the new position in the random source.\<close>

definition visualTrial ::
  "GameSettings \<Rightarrow> random \<Rightarrow> int \<Rightarrow> bool \<Rightarrow> Stimulus list \<Rightarrow> nat \<Rightarrow>
   (error + int option \<times> bool \<times> nat) option" where
  "visualTrial s rnd i forceVisualMatch sq k =
     (let eligible = (nLevel s \<le> i \<and> gameMode s \<noteq> Audio) in
      case decideMatch eligible forceVisualMatch rnd k of
        (isMatch, k1) \<Rightarrow>
          if isMatch then
            (case element sq (i - nLevel s) of
               None \<Rightarrow> Some (Inl TypeError)
             | Some nb \<Rightarrow> Some (Inr (visualPosition nb, True, k1)))
          else if eligible then
            (case element sq (i - nLevel s) of
               None \<Rightarrow> Some (Inl TypeError)
             | Some nb \<Rightarrow>
                 (case redrawVisual (gameMode s) rnd (visualPosition nb) k1 of
                    None \<Rightarrow> None
                  | Some (v, k2) \<Rightarrow> Some (Inr (v, False, k2))))
          else
            (case getRandomVisual (gameMode s) rnd k1 of
               (v, k2) \<Rightarrow> Some (Inr (v, False, k2))))"

text \<open>Lines 77-86, the same for the audio channel.\<close>

definition audioTrial ::
  "GameSettings \<Rightarrow> random \<Rightarrow> int \<Rightarrow> bool \<Rightarrow> Stimulus list \<Rightarrow> nat \<Rightarrow>
   (error + string option \<times> bool \<times> nat) option" where
  "audioTrial s rnd i forceAudioMatch sq k =
     (let eligible = (nLevel s \<le> i \<and> gameMode s \<noteq> Visual) in
      case decideMatch eligible forceAudioMatch rnd k of
        (isMatch, k1) \<Rightarrow>
          if isMatch then
            (case element sq (i - nLevel s) of
               None \<Rightarrow> Some (Inl TypeError)
             | Some nb \<Rightarrow> Some (Inr (audioLetter nb, True, k1)))
          else if eligible then
            (case element sq (i - nLevel s) of
               None \<Rightarrow> Some (Inl TypeError)
             | Some nb \<Rightarrow>
                 (case redrawAudio (gameMode s) rnd (audioLetter nb) k1 of
                    None \<Rightarrow> None
                  | Some (a, k2) \<Rightarrow> Some (Inr (a, False, k2))))
          else
            (case getRandomAudio (gameMode s) rnd k1 of
               (a, k2) \<Rightarrow> Some (Inr (a, False, k2))))"

text \<open>One iteration of the \<^verbatim>\<open>for\<close> loop (lines 46-89).\<close>

definition genTrial ::
  "GameSettings \<Rightarrow> random \<Rightarrow> int \<Rightarrow> int \<Rightarrow> int \<Rightarrow> int \<Rightarrow> GenState \<Rightarrow>
   (error + GenState) option" where
  "genTrial s rnd numTrials minVisualMatches minAudioMatches i st =
     (let remainingTrials = numTrials - i;
          minRemainingVisual = max 0 (minVisualMatches - visualMatchesCreated st);
          minRemainingAudio = max 0 (minAudioMatches - audioMatchesCreated st);
          forceVisualMatch =
            (nLevel s \<le> i \<and> remainingTrials \<le> minRemainingVisual * 2 \<and>
             0 < minRemainingVisual \<and> gameMode s \<noteq> Audio);
          forceAudioMatch =
            (nLevel s \<le> i \<and> remainingTrials \<le> minRemainingAudio * 2 \<and>
             0 < minRemainingAudio \<and> gameMode s \<noteq> Visual)
      in
      case visualTrial s rnd i forceVisualMatch (sequence st) (consumed st) of
        None \<Rightarrow> None
      | Some (Inl e) \<Rightarrow> Some (Inl e)
      | Some (Inr (vp, vm, k1)) \<Rightarrow>
          (case audioTrial s rnd i forceAudioMatch (sequence st) k1 of
             None \<Rightarrow> None
           | Some (Inl e) \<Rightarrow> Some (Inl e)
           | Some (Inr (al, am, k2)) \<Rightarrow>
               Some (Inr
                 \<lparr>sequence = sequence st @ [\<lparr>visualPosition = vp, audioLetter = al\<rparr>],
                  visualMatchesCreated =
                    (if vm then visualMatchesCreated st + 1 else visualMatchesCreated st),
                  audioMatchesCreated =
                    (if am then audioMatchesCreated st + 1 else audioMatchesCreated st),
                  consumed = k2,
                  visualIntended = visualIntended st @ [vm],
                  audioIntended = audioIntended st @ [am]\<rparr>)))"

function genLoop ::
  "GameSettings \<Rightarrow> random \<Rightarrow> int \<Rightarrow> int \<Rightarrow> int \<Rightarrow> int \<Rightarrow> GenState \<Rightarrow>
   (error + GenState) option" where
  "genLoop s rnd numTrials minV minA i st =
     (if i < numTrials then
        (case genTrial s rnd numTrials minV minA i st of
           None \<Rightarrow> None
         | Some (Inl e) \<Rightarrow> Some (Inl e)
         | Some (Inr st') \<Rightarrow> genLoop s rnd numTrials minV minA (i + 1) st')
      else Some (Inr st))"
  by pat_completeness auto
termination
  by (relation "measure (\<lambda>(s, rnd, numTrials, minV, minA, i, st). nat (numTrials - i))") auto

declare genLoop.simps [simp del]

definition initialGenState :: GenState where
  "initialGenState =
     \<lparr>sequence = [], visualMatchesCreated = 0, audioMatchesCreated = 0, consumed = 0,
      visualIntended = [], audioIntended = []\<rparr>"

text \<open>\<^verbatim>\<open>Math.ceil(sessionDuration / 30 * 3)\<close>, in exact arithmetic. The double
  computation of the source gives the same value at 120 seconds (\<open>120 / 30 = 4\<close> and
  \<open>4 * 3 = 12\<close> are exact), the one duration for which a property below depends on it.\<close>

definition minMatches :: "int \<Rightarrow> int" where
  "minMatches sd = \<lceil>rat_of_int sd / 30 * 3\<rceil>"

text \<open>The body of \<^verbatim>\<open>generateSequence\<close> up to the final state of the loop; a non-positive
  trial duration returns before the loop with no trial generated.\<close>

definition generateRun :: "GameSettings \<Rightarrow> random \<Rightarrow> (error + GenState) option" where
  "generateRun s rnd =
     (let trialDuration = stimulusDuration s + interStimulusInterval s in
      if trialDuration \<le> 0 then Some (Inr initialGenState)
      else
        let numTrials = (sessionDuration s * 1000) div trialDuration;
            minVisualMatches = (if gameMode s \<noteq> Audio then minMatches (sessionDuration s) else 0);
            minAudioMatches = (if gameMode s \<noteq> Visual then minMatches (sessionDuration s) else 0)
        in genLoop s rnd numTrials minVisualMatches minAudioMatches 0 initialGenState)"

definition generateSequence :: "GameSettings \<Rightarrow> random \<Rightarrow> (error + Stimulus list) option" where
  "generateSequence s rnd =
     (case generateRun s rnd of
        None \<Rightarrow> None
      | Some (Inl e) \<Rightarrow> Some (Inl e)
      | Some (Inr st) \<Rightarrow> Some (Inr (sequence st)))"

section \<open>Scoring calculator (gameLogic.ts, calculateResults)\<close>

definition initResultCounters :: ModeResultMetrics where
  "initResultCounters =
     \<lparr>hits = 0, misses = 0, falseAlarms = 0, errors = 0, totalMatches = 0, rate = Number 0\<rparr>"

text \<open>Lines 130-145: the guard reads \<^verbatim>\<open>currentStimulus\<close> only when the channel has
  counters, and \<^verbatim>\<open>nBackStimulus\<close> only when the current value is not null.\<close>

definition scoreVisual ::
  "ModeResultMetrics option \<Rightarrow> Stimulus option \<Rightarrow> Stimulus option \<Rightarrow> Response \<Rightarrow>
   error + ModeResultMetrics option" where
  "scoreVisual visualResults currentStimulus nBackStimulus userResponse =
     (case visualResults of
        None \<Rightarrow> Inr None
      | Some r \<Rightarrow>
          (case currentStimulus of
             None \<Rightarrow> Inl TypeError
           | Some cur \<Rightarrow>
               if visualPosition cur \<noteq> None then
                 (case nBackStimulus of
                    None \<Rightarrow> Inl TypeError
                  | Some nb \<Rightarrow>
                      if visualPosition nb \<noteq> None then
                        (if visualPosition cur = visualPosition nb then
                           (if respVisual userResponse = Some True
                            then Inr (Some (r\<lparr>totalMatches := totalMatches r + 1,
                                               hits := hits r + 1\<rparr>))
                            else Inr (Some (r\<lparr>totalMatches := totalMatches r + 1,
                                               misses := misses r + 1\<rparr>)))
                         else
                           (if respVisual userResponse = Some True
                            then Inr (Some (r\<lparr>falseAlarms := falseAlarms r + 1\<rparr>))
                            else Inr (Some r)))
                      else Inr (Some r))
               else Inr (Some r)))"

text \<open>Lines 147-163.\<close>

definition scoreAudio ::
  "ModeResultMetrics option \<Rightarrow> Stimulus option \<Rightarrow> Stimulus option \<Rightarrow> Response \<Rightarrow>
   error + ModeResultMetrics option" where
  "scoreAudio audioResults currentStimulus nBackStimulus userResponse =
     (case audioResults of
        None \<Rightarrow> Inr None
      | Some r \<Rightarrow>
          (case currentStimulus of
             None \<Rightarrow> Inl TypeError
           | Some cur \<Rightarrow>
               if audioLetter cur \<noteq> None then
                 (case nBackStimulus of
                    None \<Rightarrow> Inl TypeError
                  | Some nb \<Rightarrow>
                      if audioLetter nb \<noteq> None then
                        (if audioLetter cur = audioLetter nb then
                           (if respAudio userResponse = Some True
                            then Inr (Some (r\<lparr>totalMatches := totalMatches r + 1,
                                               hits := hits r + 1\<rparr>))
                            else Inr (Some (r\<lparr>totalMatches := totalMatches r + 1,
                                               misses := misses r + 1\<rparr>)))
                         else
                           (if respAudio userResponse = Some True
                            then Inr (Some (r\<lparr>falseAlarms := falseAlarms r + 1\<rparr>))
                            else Inr (Some r)))
                      else Inr (Some r))
               else Inr (Some r)))"

text \<open>The \<^verbatim>\<open>for\<close> loop of lines 124-164, from index \<open>i\<close>.\<close>

function calcLoop ::
  "GameSettings \<Rightarrow> GameReducerState \<Rightarrow> int \<Rightarrow>
   ModeResultMetrics option \<times> ModeResultMetrics option \<Rightarrow>
   error + ModeResultMetrics option \<times> ModeResultMetrics option" where
  "calcLoop s st i (visualResults, audioResults) =
     (if i < int (length (stimulusSequence st)) then
        (let currentStimulus = element (stimulusSequence st) i;
             nBackStimulus = element (stimulusSequence st) (i - nLevel s);
             userResponse =
               (case userResponses st i of
                  None \<Rightarrow> \<lparr>respVisual = None, respAudio = None\<rparr>
                | Some r \<Rightarrow> r)
         in
         case scoreVisual visualResults currentStimulus nBackStimulus userResponse of
           Inl e \<Rightarrow> Inl e
         | Inr visualResults' \<Rightarrow>
             (case scoreAudio audioResults currentStimulus nBackStimulus userResponse of
                Inl e \<Rightarrow> Inl e
              | Inr audioResults' \<Rightarrow> calcLoop s st (i + 1) (visualResults', audioResults')))
      else Inr (visualResults, audioResults))"
  by pat_completeness auto
termination
  by (relation "measure (\<lambda>(s, st, i, r). nat (int (length (stimulusSequence st)) - i))") auto

declare calcLoop.simps [simp del]

text \<open>Lines 170-176 and 181-186: the derived metrics of one channel. The division is
  behind the test \<^verbatim>\<open>totalMatches > 0\<close>.\<close>

definition deriveMetrics :: "ModeResultMetrics \<Rightarrow> ModeResultMetrics" where
  "deriveMetrics r =
     (let e = misses r + falseAlarms r in
      r\<lparr>errors := e,
        rate :=
          (if 0 < totalMatches r
           then times100 (jsDivide (totalMatches r - e) (totalMatches r))
           else if e = 0 then Number 100 else Number 0)\<rparr>)"

definition calculateResults :: "GameSettings \<Rightarrow> GameReducerState \<Rightarrow> error + GameResults" where
  "calculateResults s st =
     (let numTrials = int (length (stimulusSequence st));
          visualResults = (if gameMode s \<noteq> Audio then Some initResultCounters else None);
          audioResults = (if gameMode s \<noteq> Visual then Some initResultCounters else None)
      in
      case calcLoop s st (nLevel s) (visualResults, audioResults) of
        Inl e \<Rightarrow> Inl e
      | Inr (visualCounted, audioCounted) \<Rightarrow>
          (let visualFinal = map_option deriveMetrics visualCounted;
               audioFinal = map_option deriveMetrics audioCounted;
               totalOverallHits =
                 (case visualFinal of None \<Rightarrow> 0 | Some r \<Rightarrow> hits r) +
                 (case audioFinal of None \<Rightarrow> 0 | Some r \<Rightarrow> hits r);
               totalOverallMatches =
                 (case visualFinal of None \<Rightarrow> 0 | Some r \<Rightarrow> totalMatches r) +
                 (case audioFinal of None \<Rightarrow> 0 | Some r \<Rightarrow> totalMatches r)
           in
           Inr \<lparr>resSettings = s, totalTrials = numTrials,
                resVisual = visualFinal, resAudio = audioFinal,
                overallSuccessRate =
                  (if 0 < totalOverallMatches
                   then times100 (jsDivide totalOverallHits totalOverallMatches)
                   else Number 0)\<rparr>))"

definition determineFeedback :: "bool \<Rightarrow> bool option \<Rightarrow> FeedbackType option" where
  "determineFeedback isMatch userPressedMatch =
     (if isMatch then (if userPressedMatch = Some True then Some Correct else None)
      else (if userPressedMatch = Some True then Some FalseAlarm else None))"

definition determineMissFeedback :: "bool \<Rightarrow> bool option \<Rightarrow> FeedbackType option" where
  "determineMissFeedback isMatch userPressedMatch =
     (if isMatch \<and> userPressedMatch \<noteq> Some True then Some Miss else None)"

section \<open>Trial state machine (useGameReducer.ts, gameReducer)\<close>

definition noFeedback :: Feedback where
  "noFeedback = \<lparr>fbVisual = None, fbAudio = None\<rparr>"

definition unanswered :: Response where
  "unanswered = \<lparr>respVisual = None, respAudio = None\<rparr>"

text \<open>\<^verbatim>\<open>new Array(n).fill(null).map(() => ({ visual: null, audio: null }))\<close>\<close>

definition emptyResponses :: "nat \<Rightarrow> int \<Rightarrow> Response option" where
  "emptyResponses n = (\<lambda>i. if 0 \<le> i \<and> i < int n then Some unanswered else None)"

definition initialState :: GameReducerState where
  "initialState =
     \<lparr>status = Idle, settings = None, stimulusSequence = [], userResponses = emptyResponses 0,
      currentTrial = - 1, activeVisualStimulus = None, activeAudioStimulus = None,
      feedback = noFeedback, score = 0, elapsedTime = 0, results = None,
      showFeedbackUntil = 0\<rparr>"

text \<open>Lines 83-87 of the reducer: \<^verbatim>\<open>prevStimulus\<close> is read first, \<^verbatim>\<open>nBackStimulus\<close>
  only behind \<^verbatim>\<open>prevStimulus.visualPosition !== null &&\<close>, then \<^verbatim>\<open>prevResponse\<close>.\<close>

definition missVisual ::
  "GameSettings \<Rightarrow> Stimulus option \<Rightarrow> Stimulus option \<Rightarrow> Response option \<Rightarrow>
   error + FeedbackType option" where
  "missVisual a prevStimulus nBackStimulus prevResponse =
     (if gameMode a \<noteq> Audio then
        (case prevStimulus of
           None \<Rightarrow> Inl TypeError
         | Some p \<Rightarrow>
             (case (if visualPosition p \<noteq> None then
                      (case nBackStimulus of
                         None \<Rightarrow> Inl TypeError
                       | Some nb \<Rightarrow> Inr (visualPosition p = visualPosition nb))
                    else Inr False) of
                Inl e \<Rightarrow> Inl e
              | Inr visualMatchOccurred \<Rightarrow>
                  (case prevResponse of
                     None \<Rightarrow> Inl TypeError
                   | Some r \<Rightarrow>
                       Inr (determineMissFeedback visualMatchOccurred (respVisual r)))))
      else Inr None)"

text \<open>Lines 88-92.\<close>

definition missAudio ::
  "GameSettings \<Rightarrow> Stimulus option \<Rightarrow> Stimulus option \<Rightarrow> Response option \<Rightarrow>
   error + FeedbackType option" where
  "missAudio a prevStimulus nBackStimulus prevResponse =
     (if gameMode a \<noteq> Visual then
        (case prevStimulus of
           None \<Rightarrow> Inl TypeError
         | Some p \<Rightarrow>
             (case (if audioLetter p \<noteq> None then
                      (case nBackStimulus of
                         None \<Rightarrow> Inl TypeError
                       | Some nb \<Rightarrow> Inr (audioLetter p = audioLetter nb))
                    else Inr False) of
                Inl e \<Rightarrow> Inl e
              | Inr audioMatchOccurred \<Rightarrow>
                  (case prevResponse of
                     None \<Rightarrow> Inl TypeError
                   | Some r \<Rightarrow>
                       Inr (determineMissFeedback audioMatchOccurred (respAudio r)))))
      else Inr None)"

text \<open>Lines 74-93: the miss feedback of the trial that ends, and the score delta.\<close>

definition resolveMiss :: "GameSettings \<Rightarrow> GameReducerState \<Rightarrow> error + Feedback \<times> int" where
  "resolveMiss a st =
     (if nLevel a \<le> currentTrial st then
        (let prevTrialIndex = currentTrial st;
             prevStimulus = element (stimulusSequence st) prevTrialIndex;
             nBackStimulus = element (stimulusSequence st) (prevTrialIndex - nLevel a);
             prevResponse = userResponses st prevTrialIndex
         in
         case missVisual a prevStimulus nBackStimulus prevResponse of
           Inl e \<Rightarrow> Inl e
         | Inr mv \<Rightarrow>
             (case missAudio a prevStimulus nBackStimulus prevResponse of
                Inl e \<Rightarrow> Inl e
              | Inr ma \<Rightarrow>
                  Inr (\<lparr>fbVisual = mv, fbAudio = ma\<rparr>,
                       (if mv = Some Miss then - 1 else 0) +
                       (if ma = Some Miss then - 1 else 0))))
      else Inr (noFeedback, 0))"

text \<open>The truthiness test of line 102: the empty string counts as no letter.\<close>

definition truthyLetter :: "string option \<Rightarrow> string option" where
  "truthyLetter l = (case l of None \<Rightarrow> None | Some x \<Rightarrow> if x = [] then None else Some x)"

text \<open>The NEXT_TRIAL case (lines 66-107). The mode and N come from the settings the action
  carries.\<close>

definition nextTrial :: "int \<Rightarrow> GameSettings \<Rightarrow> GameReducerState \<Rightarrow> error + GameReducerState" where
  "nextTrial currentTime a st =
     (let nextTrialIndex = currentTrial st + 1 in
      if int (length (stimulusSequence st)) \<le> nextTrialIndex
      then Inr (st\<lparr>status := Finished\<rparr>)
      else
        (case resolveMiss a st of
           Inl e \<Rightarrow> Inl e
         | Inr (missFeedback, scoreDelta) \<Rightarrow>
             (case element (stimulusSequence st) nextTrialIndex of
                None \<Rightarrow> Inl TypeError
              | Some currentStimulus \<Rightarrow>
                  (let shown = (fbVisual missFeedback \<noteq> None \<or> fbAudio missFeedback \<noteq> None)
                   in
                   Inr (st\<lparr>score := score st + scoreDelta,
                           currentTrial := nextTrialIndex,
                           activeVisualStimulus := visualPosition currentStimulus,
                           activeAudioStimulus := truthyLetter (audioLetter currentStimulus),
                           feedback := (if shown then missFeedback else noFeedback),
                           showFeedbackUntil :=
                             (if shown then currentTime + FEEDBACK_DURATION_MS else 0),
                           elapsedTime := elapsedTime st\<rparr>)))))"

text \<open>The tests of lines 118-119: \<^verbatim>\<open>userResponses[i]?.visual !== null\<close> also holds when
  the slot is \<^verbatim>\<open>undefined\<close>.\<close>

definition alreadyRecorded :: "ResponseType \<Rightarrow> Response option \<Rightarrow> bool" where
  "alreadyRecorded responseType slot =
     (case slot of
        None \<Rightarrow> True
      | Some r \<Rightarrow>
          (case responseType of
             VisualResponse \<Rightarrow> respVisual r \<noteq> None
           | AudioResponse \<Rightarrow> respAudio r \<noteq> None))"

text \<open>The REGISTER_RESPONSE case (lines 109-164). N and the mode come from the settings
  stored in the state; \<^verbatim>\<open>state.settings!\<close> throws on \<^verbatim>\<open>null\<close>. The stimuli are read
  only inside the branch of an enabled channel.\<close>

definition registerResponse ::
  "ResponseType \<Rightarrow> int \<Rightarrow> GameReducerState \<Rightarrow> error + GameReducerState" where
  "registerResponse responseType currentTime st =
     (case settings st of
        None \<Rightarrow> Inl TypeError
      | Some s \<Rightarrow>
          (let currentTrialIndex = currentTrial st in
           if currentTrialIndex < nLevel s then Inr st
           else if alreadyRecorded responseType (userResponses st currentTrialIndex)
           then Inr st
           else
             (let currentStimulus = element (stimulusSequence st) currentTrialIndex;
                  nBackStimulus =
                    element (stimulusSequence st) (currentTrialIndex - nLevel s);
                  updatedTrialResponse =
                    (case userResponses st currentTrialIndex of
                       None \<Rightarrow> unanswered
                     | Some r \<Rightarrow> r)
              in
              if responseType = VisualResponse \<and> gameMode s \<noteq> Audio then
                (case currentStimulus of
                   None \<Rightarrow> Inl TypeError
                 | Some cur \<Rightarrow>
                     (case (if visualPosition cur \<noteq> None then
                              (case nBackStimulus of
                                 None \<Rightarrow> Inl TypeError
                               | Some nb \<Rightarrow>
                                   Inr (visualPosition nb \<noteq> None \<and>
                                        visualPosition cur = visualPosition nb))
                            else Inr False) of
                        Inl e \<Rightarrow> Inl e
                      | Inr isMatch \<Rightarrow>
                          (case determineFeedback isMatch (Some True) of
                             None \<Rightarrow>
                               Inr (st\<lparr>score := score st + 0,
                                       userResponses := (userResponses st)
                                         (currentTrialIndex \<mapsto>
                                            updatedTrialResponse\<lparr>respVisual := Some True\<rparr>)\<rparr>)
                           | Some responseFeedback \<Rightarrow>
                               Inr (st\<lparr>score := score st +
                                         (if responseFeedback = Correct then 1
                                          else if responseFeedback = FalseAlarm then - 1
                                          else 0),
                                       userResponses := (userResponses st)
                                         (currentTrialIndex \<mapsto>
                                            updatedTrialResponse\<lparr>respVisual := Some True\<rparr>),
                                       feedback := (feedback st)
                                         \<lparr>fbVisual := Some responseFeedback\<rparr>,
                                       showFeedbackUntil :=
                                         currentTime + FEEDBACK_DURATION_MS\<rparr>))))
              else if responseType = AudioResponse \<and> gameMode s \<noteq> Visual then
                (case currentStimulus of
                   None \<Rightarrow> Inl TypeError
                 | Some cur \<Rightarrow>
                     (case (if audioLetter cur \<noteq> None then
                              (case nBackStimulus of
                                 None \<Rightarrow> Inl TypeError
                               | Some nb \<Rightarrow>
                                   Inr (audioLetter nb \<noteq> None \<and>
                                        audioLetter cur = audioLetter nb))
                            else Inr False) of
                        Inl e \<Rightarrow> Inl e
                      | Inr isMatch \<Rightarrow>
                          (case determineFeedback isMatch (Some True) of
                             None \<Rightarrow>
                               Inr (st\<lparr>score := score st + 0,
                                       userResponses := (userResponses st)
                                         (currentTrialIndex \<mapsto>
                                            updatedTrialResponse\<lparr>respAudio := Some True\<rparr>)\<rparr>)
                           | Some responseFeedback \<Rightarrow>
                               Inr (st\<lparr>score := score st +
                                         (if responseFeedback = Correct then 1
                                          else if responseFeedback = FalseAlarm then - 1
                                          else 0),
                                       userResponses := (userResponses st)
                                         (currentTrialIndex \<mapsto>
                                            updatedTrialResponse\<lparr>respAudio := Some True\<rparr>),
                                       feedback := (feedback st)
                                         \<lparr>fbAudio := Some responseFeedback\<rparr>,
                                       showFeedbackUntil :=
                                         currentTime + FEEDBACK_DURATION_MS\<rparr>))))
              else
                Inr (st\<lparr>score := score st + 0,
                        userResponses := (userResponses st)
                          (currentTrialIndex \<mapsto> updatedTrialResponse)\<rparr>))))"

text \<open>The reducer. \<open>now\<close> is the value of \<^verbatim>\<open>Date.now()\<close>, which SHOW_FEEDBACK and
  CLEAR_FEEDBACK read.\<close>

fun gameReducer :: "int \<Rightarrow> GameReducerState \<Rightarrow> GameAction \<Rightarrow> error + GameReducerState" where
  "gameReducer now st (START_GAME s sq) =
     Inr (initialState\<lparr>status := Idle, stimulusSequence := sq,
            userResponses := emptyResponses (length sq), currentTrial := - 1,
            elapsedTime := 0, score := 0, settings := Some s\<rparr>)"
| "gameReducer now st RUN_GAME =
     (if status st = Idle then Inr (st\<lparr>status := Running\<rparr>) else Inr st)"
| "gameReducer now st STOP_GAME =
     Inr (st\<lparr>status := Idle, score := 0, currentTrial := - 1, elapsedTime := 0,
           userResponses := emptyResponses (length (stimulusSequence st)),
           activeVisualStimulus := None, activeAudioStimulus := None,
           feedback := noFeedback, showFeedbackUntil := 0, results := None\<rparr>)"
| "gameReducer now st PAUSE_GAME =
     (if status st = Running then Inr (st\<lparr>status := Paused\<rparr>) else Inr st)"
| "gameReducer now st RESUME_GAME =
     (if status st = Paused then Inr (st\<lparr>status := Running\<rparr>) else Inr st)"
| "gameReducer now st (NEXT_TRIAL currentTime a) = nextTrial currentTime a st"
| "gameReducer now st (REGISTER_RESPONSE responseType currentTime a) =
     registerResponse responseType currentTime st"
| "gameReducer now st (SHOW_FEEDBACK fb duration) =
     Inr (st\<lparr>feedback := fb, showFeedbackUntil := now + duration\<rparr>)"
| "gameReducer now st CLEAR_FEEDBACK =
     (if showFeedbackUntil st \<le> now
      then Inr (st\<lparr>feedback := noFeedback, showFeedbackUntil := 0\<rparr>)
      else Inr st)"
| "gameReducer now st (UPDATE_ELAPSED_TIME payload) = Inr (st\<lparr>elapsedTime := payload\<rparr>)"
| "gameReducer now st CLEAR_VISUAL_STIMULUS = Inr (st\<lparr>activeVisualStimulus := None\<rparr>)"
| "gameReducer now st END_SESSION =
     (case settings st of
        None \<Rightarrow> Inr (st\<lparr>status := Settings\<rparr>)
      | Some s \<Rightarrow>
          (case calculateResults s st of
             Inl e \<Rightarrow> Inl e
           | Inr finalResults \<Rightarrow>
               Inr (st\<lparr>status := Finished, results := Some finalResults,
                       activeVisualStimulus := None, activeAudioStimulus := None,
                       feedback := noFeedback\<rparr>)))"

section \<open>Vocabulary of the properties\<close>

subsection \<open>Random sources\<close>

text \<open>The redraw loops end on a random source when no value is drawn forever: from every
  position on, some later draw differs from any given cell, and some later draw differs from
  any given letter. \<^verbatim>\<open>Math.random()\<close> has this property with probability one.\<close>

definition redraws_end :: "random \<Rightarrow> bool" where
  "redraws_end rnd \<longleftrightarrow>
     (\<forall>k v. \<exists>j\<ge>k. fst (getRandomVisual Dual rnd j) \<noteq> v) \<and>
     (\<forall>k a. \<exists>j\<ge>k. fst (getRandomAudio Dual rnd j) \<noteq> a)"

text \<open>A random source for the examples: \<open>1/4, 2/4, 3/4, 1/4, ...\<close>. No value is below the match
  probability, so every match it produces is a forced one.\<close>

definition cycling :: random where
  "cycling k = rat_of_nat (k mod 3 + 1) / 4"

subsection \<open>Matches counted on a sequence\<close>

text \<open>Index \<open>i\<close> of a sequence is a true match on a channel when \<open>i \<ge> N\<close> and the value at
  \<open>i\<close> is not null and equal to the value at \<open>i - N\<close>. The number of true matches is counted
  on the sequence alone.\<close>

definition visualMatchAt :: "int \<Rightarrow> Stimulus list \<Rightarrow> nat \<Rightarrow> bool" where
  "visualMatchAt n sq i \<longleftrightarrow>
     n \<le> int i \<and> visualPosition (sq ! i) \<noteq> None \<and>
     visualPosition (sq ! i) = visualPosition (sq ! nat (int i - n))"

definition audioMatchAt :: "int \<Rightarrow> Stimulus list \<Rightarrow> nat \<Rightarrow> bool" where
  "audioMatchAt n sq i \<longleftrightarrow>
     n \<le> int i \<and> audioLetter (sq ! i) \<noteq> None \<and>
     audioLetter (sq ! i) = audioLetter (sq ! nat (int i - n))"

definition visualMatches :: "int \<Rightarrow> Stimulus list \<Rightarrow> nat" where
  "visualMatches n sq = length (filter (visualMatchAt n sq) [0..<length sq])"

definition audioMatches :: "int \<Rightarrow> Stimulus list \<Rightarrow> nat" where
  "audioMatches n sq = length (filter (audioMatchAt n sq) [0..<length sq])"

subsection \<open>Invariants of the generator loop\<close>

text \<open>The values of \<^verbatim>\<open>forceVisualMatch\<close> and \<^verbatim>\<open>forceAudioMatch\<close> in iteration \<open>i\<close>
  (lines 53-64).\<close>

definition forceVisual :: "GameSettings \<Rightarrow> int \<Rightarrow> int \<Rightarrow> int \<Rightarrow> GenState \<Rightarrow> bool" where
  "forceVisual s numTrials minV i st \<longleftrightarrow>
     nLevel s \<le> i \<and> numTrials - i \<le> max 0 (minV - visualMatchesCreated st) * 2 \<and>
     0 < max 0 (minV - visualMatchesCreated st) \<and> gameMode s \<noteq> Audio"

definition forceAudio :: "GameSettings \<Rightarrow> int \<Rightarrow> int \<Rightarrow> int \<Rightarrow> GenState \<Rightarrow> bool" where
  "forceAudio s numTrials minA i st \<longleftrightarrow>
     nLevel s \<le> i \<and> numTrials - i \<le> max 0 (minA - audioMatchesCreated st) * 2 \<and>
     0 < max 0 (minA - audioMatchesCreated st) \<and> gameMode s \<noteq> Visual"

text \<open>Before iteration \<open>i\<close> the sequence and the two histories have \<open>i\<close> entries.\<close>

definition gen_shape :: "int \<Rightarrow> GenState \<Rightarrow> bool" where
  "gen_shape i st \<longleftrightarrow>
     int (length (sequence st)) = i \<and>
     length (visualIntended st) = length (sequence st) \<and>
     length (audioIntended st) = length (sequence st)"

text \<open>A non-empty sequence is only built for \<open>N \<ge> 1\<close> (otherwise the first trial throws), and
  an enabled channel never holds null.\<close>

definition gen_nonnull :: "GameSettings \<Rightarrow> GenState \<Rightarrow> bool" where
  "gen_nonnull s st \<longleftrightarrow>
     (sequence st \<noteq> [] \<longrightarrow> 1 \<le> nLevel s) \<and>
     (gameMode s \<noteq> Audio \<longrightarrow> (\<forall>x \<in> set (sequence st). visualPosition x \<noteq> None)) \<and>
     (gameMode s \<noteq> Visual \<longrightarrow> (\<forall>x \<in> set (sequence st). audioLetter x \<noteq> None))"

text \<open>No trial that was not meant to match repeats its N-back value.\<close>

definition gen_nocollide :: "GameSettings \<Rightarrow> GenState \<Rightarrow> bool" where
  "gen_nocollide s st \<longleftrightarrow>
     (\<forall>j < length (sequence st). nLevel s \<le> int j \<longrightarrow>
        (gameMode s \<noteq> Audio \<longrightarrow> \<not> visualIntended st ! j \<longrightarrow>
           visualPosition (sequence st ! j) \<noteq>
           visualPosition (sequence st ! nat (int j - nLevel s))) \<and>
        (gameMode s \<noteq> Visual \<longrightarrow> \<not> audioIntended st ! j \<longrightarrow>
           audioLetter (sequence st ! j) \<noteq>
           audioLetter (sequence st ! nat (int j - nLevel s))))"

definition gen_inv :: "GameSettings \<Rightarrow> int \<Rightarrow> GenState \<Rightarrow> bool" where
  "gen_inv s i st \<longleftrightarrow> gen_shape i st \<and> gen_nonnull s st \<and> gen_nocollide s st"

text \<open>Every match the counters record is a true match of the sequence.\<close>

definition gen_count :: "GameSettings \<Rightarrow> GenState \<Rightarrow> bool" where
  "gen_count s st \<longleftrightarrow>
     (gameMode s \<noteq> Audio \<longrightarrow>
        visualMatchesCreated st \<le> int (visualMatches (nLevel s) (sequence st))) \<and>
     (gameMode s \<noteq> Visual \<longrightarrow>
        audioMatchesCreated st \<le> int (audioMatches (nLevel s) (sequence st)))"

text \<open>The forcing rule keeps the matches still needed within reach: twice their number never
  exceeds the trials that remain by more than one.\<close>

definition gen_force :: "GameSettings \<Rightarrow> int \<Rightarrow> int \<Rightarrow> int \<Rightarrow> int \<Rightarrow> GenState \<Rightarrow> bool" where
  "gen_force s numTrials minV minA i st \<longleftrightarrow>
     (gameMode s \<noteq> Audio \<longrightarrow>
        2 * (minV - visualMatchesCreated st) \<le> numTrials - max i (nLevel s) + 1) \<and>
     (gameMode s \<noteq> Visual \<longrightarrow>
        2 * (minA - audioMatchesCreated st) \<le> numTrials - max i (nLevel s) + 1)"

definition gen_matches :: "GameSettings \<Rightarrow> int \<Rightarrow> int \<Rightarrow> int \<Rightarrow> int \<Rightarrow> GenState \<Rightarrow> bool" where
  "gen_matches s numTrials minV minA i st \<longleftrightarrow>
     gen_shape i st \<and> gen_nonnull s st \<and> gen_count s st \<and> gen_force s numTrials minV minA i st"

subsection \<open>Vocabulary of the reducer properties\<close>

text \<open>The metrics of a channel on which nothing was counted.\<close>

definition zeroMetrics :: ModeResultMetrics where
  "zeroMetrics =
     \<lparr>hits = 0, misses = 0, falseAlarms = 0, errors = 0, totalMatches = 0,
      rate = Number 100\<rparr>"

text \<open>\<^verbatim>\<open>Number.isFinite\<close>: neither \<^verbatim>\<open>NaN\<close> nor an infinity.\<close>

definition isFiniteNumber :: "jsNumber \<Rightarrow> bool" where
  "isFiniteNumber x = (case x of Number r \<Rightarrow> True | y \<Rightarrow> False)"

text \<open>The recorded response of a slot on one channel.\<close>

definition channelResponse :: "ResponseType \<Rightarrow> Response \<Rightarrow> bool option" where
  "channelResponse rt r = (case rt of VisualResponse \<Rightarrow> respVisual r | AudioResponse \<Rightarrow> respAudio r)"

text \<open>The match test of REGISTER_RESPONSE (lines 131 and 141).\<close>

definition visualTrueMatch :: "Stimulus \<Rightarrow> Stimulus \<Rightarrow> bool" where
  "visualTrueMatch cur nb \<longleftrightarrow>
     visualPosition cur \<noteq> None \<and> visualPosition nb \<noteq> None \<and>
     visualPosition cur = visualPosition nb"

definition audioTrueMatch :: "Stimulus \<Rightarrow> Stimulus \<Rightarrow> bool" where
  "audioTrueMatch cur nb \<longleftrightarrow>
     audioLetter cur \<noteq> None \<and> audioLetter nb \<noteq> None \<and> audioLetter cur = audioLetter nb"

text \<open>A miss on a channel, as NEXT_TRIAL resolves it (lines 83-92): the channel is enabled, the
  value of the trial is not null and equal to the N-back value, and the recorded response
  is not pressed.\<close>

definition visualMissed :: "GameSettings \<Rightarrow> Stimulus \<Rightarrow> Stimulus \<Rightarrow> Response \<Rightarrow> bool" where
  "visualMissed s prev nb r \<longleftrightarrow>
     gameMode s \<noteq> Audio \<and> visualPosition prev \<noteq> None \<and>
     visualPosition prev = visualPosition nb \<and> respVisual r \<noteq> Some True"

definition audioMissed :: "GameSettings \<Rightarrow> Stimulus \<Rightarrow> Stimulus \<Rightarrow> Response \<Rightarrow> bool" where
  "audioMissed s prev nb r \<longleftrightarrow>
     gameMode s \<noteq> Visual \<and> audioLetter prev \<noteq> None \<and>
     audioLetter prev = audioLetter nb \<and> respAudio r \<noteq> Some True"

subsection \<open>Example sessions\<close>

text \<open>A session of 20 seconds (five trials) and the run of the generator on it with the random
  source \<open>cycling\<close>.\<close>

definition shortSession :: GameSettings where
  "shortSession = DEFAULT_SETTINGS\<lparr>sessionDuration := 20\<rparr>"

definition shortRun :: GenState where
  "shortRun =
     \<lparr>sequence =
        [\<lparr>visualPosition = Some 2, audioLetter = Some ''Q''\<rparr>,
         \<lparr>visualPosition = Some 6, audioLetter = Some ''K''\<rparr>,
         \<lparr>visualPosition = Some 2, audioLetter = Some ''Q''\<rparr>,
         \<lparr>visualPosition = Some 6, audioLetter = Some ''K''\<rparr>,
         \<lparr>visualPosition = Some 6, audioLetter = Some ''S''\<rparr>],
      visualMatchesCreated = 2, audioMatchesCreated = 2, consumed = 9,
      visualIntended = [False, False, True, True, False],
      audioIntended = [False, False, True, True, False]\<rparr>"

text \<open>Two short sequences, for Dual and for Audio mode.\<close>

definition threeTrials :: "Stimulus list" where
  "threeTrials =
     [\<lparr>visualPosition = Some 1, audioLetter = Some ''C''\<rparr>,
      \<lparr>visualPosition = Some 2, audioLetter = Some ''H''\<rparr>,
      \<lparr>visualPosition = Some 1, audioLetter = Some ''K''\<rparr>]"

definition audioTrials :: "Stimulus list" where
  "audioTrials =
     [\<lparr>visualPosition = None, audioLetter = Some ''C''\<rparr>,
      \<lparr>visualPosition = None, audioLetter = Some ''H''\<rparr>,
      \<lparr>visualPosition = None, audioLetter = Some ''C''\<rparr>]"

text \<open>The state in which trial \<open>i\<close> of the sequence is shown and no response has been given
  or missed so far.\<close>

definition atTrial :: "Status \<Rightarrow> GameSettings \<Rightarrow> Stimulus list \<Rightarrow> int \<Rightarrow> GameReducerState" where
  "atTrial stat s sq i =
     \<lparr>status = stat, settings = Some s, stimulusSequence = sq,
      userResponses = emptyResponses (length sq), currentTrial = i,
      activeVisualStimulus = visualPosition (sq ! nat i),
      activeAudioStimulus = audioLetter (sq ! nat i),
      feedback = noFeedback, score = 0, elapsedTime = 0, results = None,
      showFeedbackUntil = 0\<rparr>"

text \<open>Dispatching a list of actions in order, as \<^verbatim>\<open>useReducer\<close> does; an error ends
  the run.\<close>

fun dispatchAll :: "int \<Rightarrow> GameReducerState \<Rightarrow> GameAction list \<Rightarrow> error + GameReducerState" where
  "dispatchAll now st [] = Inr st"
| "dispatchAll now st (a # as) =
     (case gameReducer now st a of Inl e \<Rightarrow> Inl e | Inr st' \<Rightarrow> dispatchAll now st' as)"

section \<open>Properties\<close>

subsection \<open>The redraw loops\<close>

lemma redrawVisual_result:
  assumes "redrawVisual gm rnd nback k = Some r"
  shows "(gm = Audio \<longrightarrow> fst r = None) \<and> (gm \<noteq> Audio \<longrightarrow> fst r \<noteq> None \<and> fst r \<noteq> nback)"
proof (rule redrawVisual.raw_induct
    [where P = "\<lambda>gm rnd nback k r.
       (gm = Audio \<longrightarrow> fst r = None) \<and> (gm \<noteq> Audio \<longrightarrow> fst r \<noteq> None \<and> fst r \<noteq> nback)"])
  show "redrawVisual gm rnd nback k = Some r" by (rule assms)
next
  fix f gm rnd nback k and r :: "int option \<times> nat"
  assume IH: "\<And>gm rnd nback k r. f gm rnd nback k = Some r \<Longrightarrow>
      (gm = Audio \<longrightarrow> fst r = None) \<and> (gm \<noteq> Audio \<longrightarrow> fst r \<noteq> None \<and> fst r \<noteq> nback)"
    and eq: "(case getRandomVisual gm rnd k of
        (v, k') \<Rightarrow>
          if gm \<noteq> Audio \<and> v = nback \<and> v \<noteq> None then f gm rnd nback k'
          else Some (v, k')) = Some r"
  show "(gm = Audio \<longrightarrow> fst r = None) \<and> (gm \<noteq> Audio \<longrightarrow> fst r \<noteq> None \<and> fst r \<noteq> nback)"
  proof (cases "gm \<noteq> Audio \<and> fst (getRandomVisual gm rnd k) = nback")
    case True
    with eq have "f gm rnd nback (Suc k) = Some r"
      by (auto simp: getRandomVisual_def split: if_splits)
    then show ?thesis by (rule IH)
  next
    case False
    with eq show ?thesis
      by (auto simp: getRandomVisual_def split: if_splits)
  qed
qed

lemma redrawAudio_result:
  assumes "redrawAudio gm rnd nback k = Some r"
  shows "(gm = Visual \<longrightarrow> fst r = None) \<and> (gm \<noteq> Visual \<longrightarrow> fst r \<noteq> None \<and> fst r \<noteq> nback)"
proof (rule redrawAudio.raw_induct
    [where P = "\<lambda>gm rnd nback k r.
       (gm = Visual \<longrightarrow> fst r = None) \<and> (gm \<noteq> Visual \<longrightarrow> fst r \<noteq> None \<and> fst r \<noteq> nback)"])
  show "redrawAudio gm rnd nback k = Some r" by (rule assms)
next
  fix f gm rnd nback k and r :: "string option \<times> nat"
  assume IH: "\<And>gm rnd nback k r. f gm rnd nback k = Some r \<Longrightarrow>
      (gm = Visual \<longrightarrow> fst r = None) \<and> (gm \<noteq> Visual \<longrightarrow> fst r \<noteq> None \<and> fst r \<noteq> nback)"
    and eq: "(case getRandomAudio gm rnd k of
        (v, k') \<Rightarrow>
          if gm \<noteq> Visual \<and> v = nback \<and> v \<noteq> None then f gm rnd nback k'
          else Some (v, k')) = Some r"
  show "(gm = Visual \<longrightarrow> fst r = None) \<and> (gm \<noteq> Visual \<longrightarrow> fst r \<noteq> None \<and> fst r \<noteq> nback)"
  proof (cases "gm \<noteq> Visual \<and> fst (getRandomAudio gm rnd k) = nback")
    case True
    with eq have "f gm rnd nback (Suc k) = Some r"
      by (auto simp: getRandomAudio_def split: if_splits)
    then show ?thesis by (rule IH)
  next
    case False
    with eq show ?thesis
      by (auto simp: getRandomAudio_def split: if_splits)
  qed
qed

lemma redrawVisual_returns_aux:
  "fst (getRandomVisual gm rnd (k + d)) \<noteq> nback \<Longrightarrow> \<exists>r. redrawVisual gm rnd nback k = Some r"
proof (induction d arbitrary: k)
  case 0
  then show ?case
    by (subst redrawVisual.simps) (auto simp: getRandomVisual_def)
next
  case (Suc d)
  from Suc.prems have "fst (getRandomVisual gm rnd (Suc k + d)) \<noteq> nback" by simp
  from Suc.IH [OF this] obtain r where "redrawVisual gm rnd nback (Suc k) = Some r" ..
  then show ?case
    by (subst redrawVisual.simps) (auto simp: getRandomVisual_def)
qed

lemma redrawAudio_returns_aux:
  "fst (getRandomAudio gm rnd (k + d)) \<noteq> nback \<Longrightarrow> \<exists>r. redrawAudio gm rnd nback k = Some r"
proof (induction d arbitrary: k)
  case 0
  then show ?case
    by (subst redrawAudio.simps) (auto simp: getRandomAudio_def)
next
  case (Suc d)
  from Suc.prems have "fst (getRandomAudio gm rnd (Suc k + d)) \<noteq> nback" by simp
  from Suc.IH [OF this] obtain r where "redrawAudio gm rnd nback (Suc k) = Some r" ..
  then show ?case
    by (subst redrawAudio.simps) (auto simp: getRandomAudio_def)
qed

lemma redrawVisual_returns:
  assumes "redraws_end rnd"
  shows "\<exists>r. redrawVisual gm rnd nback k = Some r"
proof (cases "gm = Audio")
  case True
  then show ?thesis by (subst redrawVisual.simps) (simp add: getRandomVisual_def)
next
  case False
  from assms obtain j where "k \<le> j" "fst (getRandomVisual Dual rnd j) \<noteq> nback"
    unfolding redraws_end_def by blast
  with False have "fst (getRandomVisual gm rnd (k + (j - k))) \<noteq> nback"
    by (simp add: getRandomVisual_def)
  then show ?thesis by (rule redrawVisual_returns_aux)
qed

lemma redrawAudio_returns:
  assumes "redraws_end rnd"
  shows "\<exists>r. redrawAudio gm rnd nback k = Some r"
proof (cases "gm = Visual")
  case True
  then show ?thesis by (subst redrawAudio.simps) (simp add: getRandomAudio_def)
next
  case False
  from assms obtain j where "k \<le> j" "fst (getRandomAudio Dual rnd j) \<noteq> nback"
    unfolding redraws_end_def by blast
  with False have "fst (getRandomAudio gm rnd (k + (j - k))) \<noteq> nback"
    by (simp add: getRandomAudio_def)
  then show ?thesis by (rule redrawAudio_returns_aux)
qed

subsection \<open>One trial of the generator\<close>

lemma visualTrial_Inr:
  assumes "visualTrial s rnd i force sq k = Some (Inr (v, m, k'))"
  shows "(m \<longrightarrow> nLevel s \<le> i \<and> gameMode s \<noteq> Audio \<and>
            (\<exists>nb. element sq (i - nLevel s) = Some nb \<and> v = visualPosition nb))"
    and "(\<not> m \<longrightarrow> (gameMode s = Audio \<longrightarrow> v = None) \<and>
            (gameMode s \<noteq> Audio \<longrightarrow> v \<noteq> None \<and>
               (nLevel s \<le> i \<longrightarrow>
                  (\<exists>nb. element sq (i - nLevel s) = Some nb \<and> v \<noteq> visualPosition nb))))"
    and "force \<and> nLevel s \<le> i \<and> gameMode s \<noteq> Audio \<longrightarrow> m"
  using assms redrawVisual_result [of "gameMode s" rnd _ _ "(v, k')"]
  by (auto simp: visualTrial_def decideMatch_def getRandomVisual_def Let_def
      split: if_splits option.splits prod.splits)

lemma audioTrial_Inr:
  assumes "audioTrial s rnd i force sq k = Some (Inr (a, m, k'))"
  shows "(m \<longrightarrow> nLevel s \<le> i \<and> gameMode s \<noteq> Visual \<and>
            (\<exists>nb. element sq (i - nLevel s) = Some nb \<and> a = audioLetter nb))"
    and "(\<not> m \<longrightarrow> (gameMode s = Visual \<longrightarrow> a = None) \<and>
            (gameMode s \<noteq> Visual \<longrightarrow> a \<noteq> None \<and>
               (nLevel s \<le> i \<longrightarrow>
                  (\<exists>nb. element sq (i - nLevel s) = Some nb \<and> a \<noteq> audioLetter nb))))"
    and "force \<and> nLevel s \<le> i \<and> gameMode s \<noteq> Visual \<longrightarrow> m"
  using assms redrawAudio_result [of "gameMode s" rnd _ _ "(a, k')"]
  by (auto simp: audioTrial_def decideMatch_def getRandomAudio_def Let_def
      split: if_splits option.splits prod.splits)

lemma genTrial_Inr:
  assumes "genTrial s rnd numTrials minV minA i st = Some (Inr st')"
  obtains vp vm k1 al am k2 where
    "visualTrial s rnd i (forceVisual s numTrials minV i st) (sequence st) (consumed st)
       = Some (Inr (vp, vm, k1))"
    "audioTrial s rnd i (forceAudio s numTrials minA i st) (sequence st) k1
       = Some (Inr (al, am, k2))"
    "sequence st' = sequence st @ [\<lparr>visualPosition = vp, audioLetter = al\<rparr>]"
    "visualMatchesCreated st' = visualMatchesCreated st + (if vm then 1 else 0)"
    "audioMatchesCreated st' = audioMatchesCreated st + (if am then 1 else 0)"
    "visualIntended st' = visualIntended st @ [vm]"
    "audioIntended st' = audioIntended st @ [am]"
proof -
  let ?V = "visualTrial s rnd i (forceVisual s numTrials minV i st) (sequence st) (consumed st)"
  have unf: "genTrial s rnd numTrials minV minA i st =
     (case ?V of
        None \<Rightarrow> None
      | Some (Inl e) \<Rightarrow> Some (Inl e)
      | Some (Inr (vp, vm, k1)) \<Rightarrow>
          (case audioTrial s rnd i (forceAudio s numTrials minA i st) (sequence st) k1 of
             None \<Rightarrow> None
           | Some (Inl e) \<Rightarrow> Some (Inl e)
           | Some (Inr (al, am, k2)) \<Rightarrow>
               Some (Inr
                 \<lparr>sequence = sequence st @ [\<lparr>visualPosition = vp, audioLetter = al\<rparr>],
                  visualMatchesCreated =
                    (if vm then visualMatchesCreated st + 1 else visualMatchesCreated st),
                  audioMatchesCreated =
                    (if am then audioMatchesCreated st + 1 else audioMatchesCreated st),
                  consumed = k2,
                  visualIntended = visualIntended st @ [vm],
                  audioIntended = audioIntended st @ [am]\<rparr>)))"
    by (simp only: genTrial_def Let_def forceVisual_def forceAudio_def)
  from assms obtain vp vm k1 where v: "?V = Some (Inr (vp, vm, k1))"
    unfolding unf by (cases ?V) (auto split: sum.splits)
  let ?A = "audioTrial s rnd i (forceAudio s numTrials minA i st) (sequence st) k1"
  from assms v obtain al am k2 where a: "?A = Some (Inr (al, am, k2))"
    unfolding unf by (cases ?A) (auto split: sum.splits)
  from assms v a have st': "st' =
      \<lparr>sequence = sequence st @ [\<lparr>visualPosition = vp, audioLetter = al\<rparr>],
       visualMatchesCreated =
         (if vm then visualMatchesCreated st + 1 else visualMatchesCreated st),
       audioMatchesCreated =
         (if am then audioMatchesCreated st + 1 else audioMatchesCreated st),
       consumed = k2,
       visualIntended = visualIntended st @ [vm],
       audioIntended = audioIntended st @ [am]\<rparr>"
    unfolding unf by simp
  show thesis
    by (rule that [OF v a]) (simp_all add: st')
qed

subsection \<open>Invariants of the generator loop\<close>

lemma genLoop_invariant:
  assumes step: "\<And>i st st'. I i st \<Longrightarrow> i < numTrials \<Longrightarrow>
      genTrial s rnd numTrials minV minA i st = Some (Inr st') \<Longrightarrow> I (i + 1) st'"
  shows "I i st \<Longrightarrow> genLoop s rnd numTrials minV minA i st = Some (Inr st') \<Longrightarrow>
     I (max i numTrials) st'"
proof (induction "nat (numTrials - i)" arbitrary: i st)
  case 0
  then show ?case by (subst (asm) genLoop.simps) (simp add: max_def)
next
  case (Suc d)
  then have lt: "i < numTrials" by simp
  with Suc.prems(2) obtain st1 where
    t: "genTrial s rnd numTrials minV minA i st = Some (Inr st1)" and
    l: "genLoop s rnd numTrials minV minA (i + 1) st1 = Some (Inr st')"
    by (subst (asm) genLoop.simps) (auto split: option.splits sum.splits)
  have i1: "I (i + 1) st1" using Suc.prems(1) lt t by (rule step)
  from Suc.hyps(2) have d: "d = nat (numTrials - (i + 1))" by simp
  have "I (max (i + 1) numTrials) st'" by (rule Suc.hyps(1) [OF d i1 l])
  with lt show ?case by (simp add: max_def)
qed

lemma gen_shape_initial: "gen_shape 0 initialGenState"
  by (simp add: gen_shape_def initialGenState_def)

lemma gen_shape_step:
  assumes "gen_shape i st" and "genTrial s rnd numTrials minV minA i st = Some (Inr st')"
  shows "gen_shape (i + 1) st'"
  using assms(2)
proof (rule genTrial_Inr)
  fix vp vm k1 al am k2
  assume "sequence st' = sequence st @ [\<lparr>visualPosition = vp, audioLetter = al\<rparr>]"
    and "visualIntended st' = visualIntended st @ [vm]"
    and "audioIntended st' = audioIntended st @ [am]"
  with assms(1) show ?thesis by (simp add: gen_shape_def)
qed

lemma element_nback:
  assumes "int (length sq) = i" and "1 \<le> n" and "n \<le> i"
  shows "element sq (i - n) = Some (sq ! nat (i - n))"
  using assms by (simp add: element_def)

lemma visualTrial_returns:
  assumes "redraws_end rnd" and "1 \<le> nLevel s" and "int (length sq) = i"
  shows "\<exists>r. visualTrial s rnd i force sq k = Some (Inr r)"
proof -
  obtain m k1 where
    dm: "decideMatch (nLevel s \<le> i \<and> gameMode s \<noteq> Audio) force rnd k = (m, k1)"
    by fastforce
  show ?thesis
  proof (cases "nLevel s \<le> i \<and> gameMode s \<noteq> Audio")
    case True
    then have el: "element sq (i - nLevel s) = Some (sq ! nat (i - nLevel s))"
      using element_nback [OF assms(3) assms(2)] by simp
    obtain v k2 where
      "redrawVisual (gameMode s) rnd (visualPosition (sq ! nat (i - nLevel s))) k1 = Some (v, k2)"
      using redrawVisual_returns [OF assms(1)] by fastforce
    then show ?thesis
      unfolding visualTrial_def Let_def dm using True el by (cases m) auto
  next
    case False
    with dm have "\<not> m" by (auto simp: decideMatch_def)
    with False show ?thesis
      unfolding visualTrial_def Let_def dm by (auto split: prod.splits)
  qed
qed

lemma audioTrial_returns:
  assumes "redraws_end rnd" and "1 \<le> nLevel s" and "int (length sq) = i"
  shows "\<exists>r. audioTrial s rnd i force sq k = Some (Inr r)"
proof -
  obtain m k1 where
    dm: "decideMatch (nLevel s \<le> i \<and> gameMode s \<noteq> Visual) force rnd k = (m, k1)"
    by fastforce
  show ?thesis
  proof (cases "nLevel s \<le> i \<and> gameMode s \<noteq> Visual")
    case True
    then have el: "element sq (i - nLevel s) = Some (sq ! nat (i - nLevel s))"
      using element_nback [OF assms(3) assms(2)] by simp
    obtain v k2 where
      "redrawAudio (gameMode s) rnd (audioLetter (sq ! nat (i - nLevel s))) k1 = Some (v, k2)"
      using redrawAudio_returns [OF assms(1)] by fastforce
    then show ?thesis
      unfolding audioTrial_def Let_def dm using True el by (cases m) auto
  next
    case False
    with dm have "\<not> m" by (auto simp: decideMatch_def)
    with False show ?thesis
      unfolding audioTrial_def Let_def dm by (auto split: prod.splits)
  qed
qed

lemma genTrial_returns:
  assumes "redraws_end rnd" and "1 \<le> nLevel s" and "gen_shape i st"
  shows "\<exists>st'. genTrial s rnd numTrials minV minA i st = Some (Inr st')"
proof -
  from assms(3) have len: "int (length (sequence st)) = i" by (simp add: gen_shape_def)
  obtain vp vm k1 where v:
    "visualTrial s rnd i (forceVisual s numTrials minV i st) (sequence st) (consumed st)
       = Some (Inr (vp, vm, k1))"
    using visualTrial_returns [OF assms(1,2) len] by (metis prod_cases3)
  obtain al am k2 where a:
    "audioTrial s rnd i (forceAudio s numTrials minA i st) (sequence st) k1
       = Some (Inr (al, am, k2))"
    using audioTrial_returns [OF assms(1,2) len] by (metis prod_cases3)
  have "genTrial s rnd numTrials minV minA i st =
     (case visualTrial s rnd i (forceVisual s numTrials minV i st) (sequence st) (consumed st) of
        None \<Rightarrow> None
      | Some (Inl e) \<Rightarrow> Some (Inl e)
      | Some (Inr (vp, vm, k1)) \<Rightarrow>
          (case audioTrial s rnd i (forceAudio s numTrials minA i st) (sequence st) k1 of
             None \<Rightarrow> None
           | Some (Inl e) \<Rightarrow> Some (Inl e)
           | Some (Inr (al, am, k2)) \<Rightarrow>
               Some (Inr
                 \<lparr>sequence = sequence st @ [\<lparr>visualPosition = vp, audioLetter = al\<rparr>],
                  visualMatchesCreated =
                    (if vm then visualMatchesCreated st + 1 else visualMatchesCreated st),
                  audioMatchesCreated =
                    (if am then audioMatchesCreated st + 1 else audioMatchesCreated st),
                  consumed = k2,
                  visualIntended = visualIntended st @ [vm],
                  audioIntended = audioIntended st @ [am]\<rparr>)))"
    by (simp only: genTrial_def Let_def forceVisual_def forceAudio_def)
  with v a show ?thesis by simp
qed

lemma genLoop_returns:
  assumes "redraws_end rnd" and "1 \<le> nLevel s"
  shows "gen_shape i st \<Longrightarrow> \<exists>st'. genLoop s rnd numTrials minV minA i st = Some (Inr st')"
proof (induction "nat (numTrials - i)" arbitrary: i st)
  case 0
  then show ?case by (subst genLoop.simps) simp
next
  case (Suc d)
  then have lt: "i < numTrials" by simp
  from genTrial_returns [OF assms Suc.prems] obtain st1 where
    t: "genTrial s rnd numTrials minV minA i st = Some (Inr st1)" by blast
  have sh: "gen_shape (i + 1) st1" using Suc.prems t by (rule gen_shape_step)
  from Suc.hyps(2) have d: "d = nat (numTrials - (i + 1))" by simp
  from Suc.hyps(1) [OF d sh] obtain st' where
    "genLoop s rnd numTrials minV minA (i + 1) st1 = Some (Inr st')" ..
  with lt t show ?case by (subst genLoop.simps) simp
qed


lemma element_Some:
  assumes "element sq j = Some x"
  shows "0 \<le> j" and "j < int (length sq)" and "x = sq ! nat j" and "x \<in> set sq"
  using assms by (auto simp: element_def split: if_splits)

lemma visualMatches_snoc:
  assumes "1 \<le> n"
  shows "visualMatches n (sq @ [x]) =
     visualMatches n sq + (if visualMatchAt n (sq @ [x]) (length sq) then 1 else 0)"
proof -
  have "filter (visualMatchAt n (sq @ [x])) [0..<length sq] =
        filter (visualMatchAt n sq) [0..<length sq]"
  proof (rule filter_cong [OF refl])
    fix j assume "j \<in> set [0..<length sq]"
    then have j: "j < length sq" by simp
    moreover from j assms have "n \<le> int j \<Longrightarrow> nat (int j - n) < length sq" by linarith
    ultimately show "visualMatchAt n (sq @ [x]) j = visualMatchAt n sq j"
      by (auto simp: visualMatchAt_def nth_append)
  qed
  then show ?thesis by (simp add: visualMatches_def)
qed

lemma audioMatches_snoc:
  assumes "1 \<le> n"
  shows "audioMatches n (sq @ [x]) =
     audioMatches n sq + (if audioMatchAt n (sq @ [x]) (length sq) then 1 else 0)"
proof -
  have "filter (audioMatchAt n (sq @ [x])) [0..<length sq] =
        filter (audioMatchAt n sq) [0..<length sq]"
  proof (rule filter_cong [OF refl])
    fix j assume "j \<in> set [0..<length sq]"
    then have j: "j < length sq" by simp
    moreover from j assms have "n \<le> int j \<Longrightarrow> nat (int j - n) < length sq" by linarith
    ultimately show "audioMatchAt n (sq @ [x]) j = audioMatchAt n sq j"
      by (auto simp: audioMatchAt_def nth_append)
  qed
  then show ?thesis by (simp add: audioMatches_def)
qed

lemma gen_nonnull_initial: "gen_nonnull s initialGenState"
  by (simp add: gen_nonnull_def initialGenState_def)

lemma gen_nonnull_step:
  assumes sh: "gen_shape i st" and nn: "gen_nonnull s st"
    and t: "genTrial s rnd numTrials minV minA i st = Some (Inr st')"
  shows "gen_nonnull s st'"
  using t
proof (rule genTrial_Inr)
  fix vp vm k1 al am k2
  assume v: "visualTrial s rnd i (forceVisual s numTrials minV i st) (sequence st) (consumed st)
       = Some (Inr (vp, vm, k1))"
    and a: "audioTrial s rnd i (forceAudio s numTrials minA i st) (sequence st) k1
       = Some (Inr (al, am, k2))"
    and sq: "sequence st' = sequence st @ [\<lparr>visualPosition = vp, audioLetter = al\<rparr>]"
  from sh have len: "int (length (sequence st)) = i" by (simp add: gen_shape_def)
  have n1: "1 \<le> nLevel s"
  proof (cases "nLevel s \<le> i")
    case False
    with len show ?thesis by linarith
  next
    case True
    show ?thesis
    proof (cases "gameMode s = Audio")
      case False
      with True visualTrial_Inr [OF v] obtain nb where
        "element (sequence st) (i - nLevel s) = Some nb" by (cases vm) auto
      from element_Some(2) [OF this] len show ?thesis by linarith
    next
      case Audio: True
      with \<open>nLevel s \<le> i\<close> audioTrial_Inr [OF a] obtain nb where
        "element (sequence st) (i - nLevel s) = Some nb" by (cases am) auto
      from element_Some(2) [OF this] len show ?thesis by linarith
    qed
  qed
  have vp: "vp \<noteq> None" if "gameMode s \<noteq> Audio"
  proof (cases vm)
    case True
    with visualTrial_Inr(1) [OF v] obtain nb where
      "element (sequence st) (i - nLevel s) = Some nb" "vp = visualPosition nb" by auto
    with element_Some(4) [of "sequence st" "i - nLevel s" nb] nn that show ?thesis
      by (simp add: gen_nonnull_def)
  next
    case False
    with visualTrial_Inr(2) [OF v] that show ?thesis by simp
  qed
  have al: "al \<noteq> None" if "gameMode s \<noteq> Visual"
  proof (cases am)
    case True
    with audioTrial_Inr(1) [OF a] obtain nb where
      "element (sequence st) (i - nLevel s) = Some nb" "al = audioLetter nb" by auto
    with element_Some(4) [of "sequence st" "i - nLevel s" nb] nn that show ?thesis
      by (simp add: gen_nonnull_def)
  next
    case False
    with audioTrial_Inr(2) [OF a] that show ?thesis by simp
  qed
  from nn n1 vp al show ?thesis by (auto simp: gen_nonnull_def sq)
qed

lemma gen_nocollide_initial: "gen_nocollide s initialGenState"
  by (simp add: gen_nocollide_def initialGenState_def)

lemma gen_nocollide_step:
  assumes sh: "gen_shape i st" and nn: "gen_nonnull s st" and nc: "gen_nocollide s st"
    and t: "genTrial s rnd numTrials minV minA i st = Some (Inr st')"
  shows "gen_nocollide s st'"
  using t
proof (rule genTrial_Inr)
  fix vp vm k1 al am k2
  assume v: "visualTrial s rnd i (forceVisual s numTrials minV i st) (sequence st) (consumed st)
       = Some (Inr (vp, vm, k1))"
    and a: "audioTrial s rnd i (forceAudio s numTrials minA i st) (sequence st) k1
       = Some (Inr (al, am, k2))"
    and sq: "sequence st' = sequence st @ [\<lparr>visualPosition = vp, audioLetter = al\<rparr>]"
    and vi: "visualIntended st' = visualIntended st @ [vm]"
    and ai: "audioIntended st' = audioIntended st @ [am]"
  let ?sq = "sequence st" and ?x = "\<lparr>visualPosition = vp, audioLetter = al\<rparr>"
  from sh have len: "int (length ?sq) = i"
    and lv: "length (visualIntended st) = length ?sq"
    and la: "length (audioIntended st) = length ?sq"
    by (simp_all add: gen_shape_def)
  have "gen_nonnull s st'" using sh nn t by (rule gen_nonnull_step)
  then have n1: "1 \<le> nLevel s" by (simp add: gen_nonnull_def sq)
  show ?thesis
    unfolding gen_nocollide_def
  proof (intro allI impI)
    fix j assume j: "j < length (sequence st')" and nj: "nLevel s \<le> int j"
    from nj n1 have bk: "nat (int j - nLevel s) < j" by linarith
    show "(gameMode s \<noteq> Audio \<longrightarrow> \<not> visualIntended st' ! j \<longrightarrow>
           visualPosition (sequence st' ! j) \<noteq>
           visualPosition (sequence st' ! nat (int j - nLevel s))) \<and>
        (gameMode s \<noteq> Visual \<longrightarrow> \<not> audioIntended st' ! j \<longrightarrow>
           audioLetter (sequence st' ! j) \<noteq>
           audioLetter (sequence st' ! nat (int j - nLevel s)))"
    proof (cases "j < length ?sq")
      case True
      with bk have "nat (int j - nLevel s) < length ?sq" by linarith
      with True nc nj lv la show ?thesis
        by (simp add: gen_nocollide_def sq vi ai nth_append)
    next
      case False
      with j have jl: "j = length ?sq" by (simp add: sq)
      with len have ji: "int j = i" by simp
      from bk jl have b: "nat (i - nLevel s) < length ?sq" using ji by simp
      have "vp \<noteq> visualPosition (?sq ! nat (i - nLevel s))"
        if "gameMode s \<noteq> Audio" "\<not> vm"
      proof -
        from visualTrial_Inr(2) [OF v] that nj ji obtain nb where
          "element ?sq (i - nLevel s) = Some nb" "vp \<noteq> visualPosition nb" by auto
        with element_Some(3) [of ?sq "i - nLevel s" nb] show ?thesis by simp
      qed
      moreover have "al \<noteq> audioLetter (?sq ! nat (i - nLevel s))"
        if "gameMode s \<noteq> Visual" "\<not> am"
      proof -
        from audioTrial_Inr(2) [OF a] that nj ji obtain nb where
          "element ?sq (i - nLevel s) = Some nb" "al \<noteq> audioLetter nb" by auto
        with element_Some(3) [of ?sq "i - nLevel s" nb] show ?thesis by simp
      qed
      ultimately show ?thesis
        using jl ji b lv la by (simp add: sq vi ai nth_append)
    qed
  qed
qed

lemma gen_inv_initial: "gen_inv s 0 initialGenState"
  by (simp add: gen_inv_def gen_shape_initial gen_nonnull_initial gen_nocollide_initial)

lemma gen_inv_step:
  assumes "gen_inv s i st" and "genTrial s rnd numTrials minV minA i st = Some (Inr st')"
  shows "gen_inv s (i + 1) st'"
proof -
  from assms(1) have sh: "gen_shape i st" and nn: "gen_nonnull s st"
    and nc: "gen_nocollide s st" by (simp_all add: gen_inv_def)
  note t = assms(2)
  show ?thesis
    unfolding gen_inv_def
    using gen_shape_step [OF sh t] gen_nonnull_step [OF sh nn t]
      gen_nocollide_step [OF sh nn nc t] by simp
qed

lemma genLoop_inv:
  assumes "gen_inv s i st" and "genLoop s rnd numTrials minV minA i st = Some (Inr st')"
  shows "gen_inv s (max i numTrials) st'"
  using assms
  by (rule genLoop_invariant [where I = "gen_inv s", rotated 1]) (blast intro: gen_inv_step)

lemma generateRun_inv:
  assumes "generateRun s rnd = Some (Inr st)"
  shows "\<exists>i. gen_inv s i st"
proof (cases "stimulusDuration s + interStimulusInterval s \<le> 0")
  case True
  with assms have "st = initialGenState" by (simp add: generateRun_def)
  with gen_inv_initial show ?thesis by blast
next
  case False
  with assms obtain numTrials minV minA where
    "genLoop s rnd numTrials minV minA 0 initialGenState = Some (Inr st)"
    by (simp add: generateRun_def Let_def)
  from genLoop_inv [OF gen_inv_initial this] show ?thesis by blast
qed

lemma gen_count_initial: "gen_count s initialGenState"
  by (simp add: gen_count_def initialGenState_def)

lemma gen_count_step:
  assumes sh: "gen_shape i st" and nn: "gen_nonnull s st" and gc: "gen_count s st"
    and t: "genTrial s rnd numTrials minV minA i st = Some (Inr st')"
  shows "gen_count s st'"
  using t
proof (rule genTrial_Inr)
  fix vp vm k1 al am k2
  assume v: "visualTrial s rnd i (forceVisual s numTrials minV i st) (sequence st) (consumed st)
       = Some (Inr (vp, vm, k1))"
    and a: "audioTrial s rnd i (forceAudio s numTrials minA i st) (sequence st) k1
       = Some (Inr (al, am, k2))"
    and sq: "sequence st' = sequence st @ [\<lparr>visualPosition = vp, audioLetter = al\<rparr>]"
    and vc: "visualMatchesCreated st' = visualMatchesCreated st + (if vm then 1 else 0)"
    and ac: "audioMatchesCreated st' = audioMatchesCreated st + (if am then 1 else 0)"
  let ?sq = "sequence st" and ?x = "\<lparr>visualPosition = vp, audioLetter = al\<rparr>"
  from sh have len: "int (length ?sq) = i" by (simp add: gen_shape_def)
  have nn': "gen_nonnull s st'" using sh nn t by (rule gen_nonnull_step)
  then have n1: "1 \<le> nLevel s" by (simp add: gen_nonnull_def sq)
  have vm: "visualMatchAt (nLevel s) (?sq @ [?x]) (length ?sq)" if "vm"
  proof -
    from visualTrial_Inr(1) [OF v] that obtain nb where
      ni: "nLevel s \<le> i" and gm: "gameMode s \<noteq> Audio" and
      el: "element ?sq (i - nLevel s) = Some nb" and vp: "vp = visualPosition nb" by auto
    from nn' gm have "vp \<noteq> None" by (simp add: gen_nonnull_def sq)
    moreover from element_Some(1,2) [OF el] len
    have "nat (i - nLevel s) < length ?sq" by linarith
    moreover from element_Some(3) [OF el] vp
    have "vp = visualPosition (?sq ! nat (i - nLevel s))" by simp
    ultimately show ?thesis using ni len
      by (simp add: visualMatchAt_def nth_append)
  qed
  have am: "audioMatchAt (nLevel s) (?sq @ [?x]) (length ?sq)" if "am"
  proof -
    from audioTrial_Inr(1) [OF a] that obtain nb where
      ni: "nLevel s \<le> i" and gm: "gameMode s \<noteq> Visual" and
      el: "element ?sq (i - nLevel s) = Some nb" and al: "al = audioLetter nb" by auto
    from nn' gm have "al \<noteq> None" by (simp add: gen_nonnull_def sq)
    moreover from element_Some(1,2) [OF el] len
    have "nat (i - nLevel s) < length ?sq" by linarith
    moreover from element_Some(3) [OF el] al
    have "al = audioLetter (?sq ! nat (i - nLevel s))" by simp
    ultimately show ?thesis using ni len
      by (simp add: audioMatchAt_def nth_append)
  qed
  from gc vm am show ?thesis
    by (auto simp: gen_count_def sq vc ac visualMatches_snoc [OF n1] audioMatches_snoc [OF n1])
qed

lemma gen_force_step:
  assumes gf: "gen_force s numTrials minV minA i st" and lt: "i < numTrials"
    and t: "genTrial s rnd numTrials minV minA i st = Some (Inr st')"
  shows "gen_force s numTrials minV minA (i + 1) st'"
  using t
proof (rule genTrial_Inr)
  fix vp vm k1 al am k2
  assume v: "visualTrial s rnd i (forceVisual s numTrials minV i st) (sequence st) (consumed st)
       = Some (Inr (vp, vm, k1))"
    and a: "audioTrial s rnd i (forceAudio s numTrials minA i st) (sequence st) k1
       = Some (Inr (al, am, k2))"
    and vc: "visualMatchesCreated st' = visualMatchesCreated st + (if vm then 1 else 0)"
    and ac: "audioMatchesCreated st' = audioMatchesCreated st + (if am then 1 else 0)"
  have "2 * (minV - visualMatchesCreated st') \<le> numTrials - max (i + 1) (nLevel s) + 1"
    if gm: "gameMode s \<noteq> Audio"
  proof -
    from gf gm have old: "2 * (minV - visualMatchesCreated st) \<le> numTrials - max i (nLevel s) + 1"
      by (simp add: gen_force_def)
    show ?thesis
    proof (cases "nLevel s \<le> i")
      case False
      with visualTrial_Inr(1) [OF v] have "\<not> vm" by auto
      with old False show ?thesis by (simp add: vc max_def)
    next
      case True
      show ?thesis
      proof (cases "forceVisual s numTrials minV i st")
        case True
        with visualTrial_Inr(3) [OF v] \<open>nLevel s \<le> i\<close> gm have vm by simp
        with old \<open>nLevel s \<le> i\<close> show ?thesis by (simp add: vc max_def)
      next
        case False
        have c': "visualMatchesCreated st \<le> visualMatchesCreated st'"
          by (simp add: vc)
        from True have mx: "max (i + 1) (nLevel s) = i + 1" by simp
        from False True gm have
          "2 * (minV - visualMatchesCreated st) < numTrials - i \<or>
           minV - visualMatchesCreated st \<le> 0"
          by (auto simp: forceVisual_def max_def split: if_splits)
        then show ?thesis
          unfolding mx
        proof
          assume "2 * (minV - visualMatchesCreated st) < numTrials - i"
          with c' show "2 * (minV - visualMatchesCreated st') \<le> numTrials - (i + 1) + 1"
            by simp
        next
          assume "minV - visualMatchesCreated st \<le> 0"
          with c' lt show "2 * (minV - visualMatchesCreated st') \<le> numTrials - (i + 1) + 1"
            by simp
        qed
      qed
    qed
  qed
  moreover
  have "2 * (minA - audioMatchesCreated st') \<le> numTrials - max (i + 1) (nLevel s) + 1"
    if gm: "gameMode s \<noteq> Visual"
  proof -
    from gf gm have old: "2 * (minA - audioMatchesCreated st) \<le> numTrials - max i (nLevel s) + 1"
      by (simp add: gen_force_def)
    show ?thesis
    proof (cases "nLevel s \<le> i")
      case False
      with audioTrial_Inr(1) [OF a] have "\<not> am" by auto
      with old False show ?thesis by (simp add: ac max_def)
    next
      case True
      show ?thesis
      proof (cases "forceAudio s numTrials minA i st")
        case True
        with audioTrial_Inr(3) [OF a] \<open>nLevel s \<le> i\<close> gm have am by simp
        with old \<open>nLevel s \<le> i\<close> show ?thesis by (simp add: ac max_def)
      next
        case False
        have c': "audioMatchesCreated st \<le> audioMatchesCreated st'"
          by (simp add: ac)
        from True have mx: "max (i + 1) (nLevel s) = i + 1" by simp
        from False True gm have
          "2 * (minA - audioMatchesCreated st) < numTrials - i \<or>
           minA - audioMatchesCreated st \<le> 0"
          by (auto simp: forceAudio_def max_def split: if_splits)
        then show ?thesis
          unfolding mx
        proof
          assume "2 * (minA - audioMatchesCreated st) < numTrials - i"
          with c' show "2 * (minA - audioMatchesCreated st') \<le> numTrials - (i + 1) + 1"
            by simp
        next
          assume "minA - audioMatchesCreated st \<le> 0"
          with c' lt show "2 * (minA - audioMatchesCreated st') \<le> numTrials - (i + 1) + 1"
            by simp
        qed
      qed
    qed
  qed
  ultimately show ?thesis by (simp add: gen_force_def)
qed

lemma gen_matches_step:
  assumes "gen_matches s numTrials minV minA i st" and lt: "i < numTrials"
    and t: "genTrial s rnd numTrials minV minA i st = Some (Inr st')"
  shows "gen_matches s numTrials minV minA (i + 1) st'"
proof -
  from assms(1) have sh: "gen_shape i st" and nn: "gen_nonnull s st"
    and gc: "gen_count s st" and gf: "gen_force s numTrials minV minA i st"
    by (simp_all add: gen_matches_def)
  show ?thesis
    unfolding gen_matches_def
    using gen_shape_step [OF sh t] gen_nonnull_step [OF sh nn t]
      gen_count_step [OF sh nn gc t] gen_force_step [OF gf lt t] by simp
qed

lemma genLoop_matches:
  assumes "genLoop s rnd numTrials minV minA 0 initialGenState = Some (Inr st)"
    and "0 \<le> numTrials" and "nLevel s \<le> numTrials"
    and "gameMode s \<noteq> Audio \<longrightarrow> 2 * minV \<le> numTrials - max 0 (nLevel s) + 1"
    and "gameMode s \<noteq> Visual \<longrightarrow> 2 * minA \<le> numTrials - max 0 (nLevel s) + 1"
  shows "int (length (sequence st)) = numTrials"
    and "gameMode s \<noteq> Audio \<longrightarrow> minV \<le> int (visualMatches (nLevel s) (sequence st))"
    and "gameMode s \<noteq> Visual \<longrightarrow> minA \<le> int (audioMatches (nLevel s) (sequence st))"
proof -
  have init: "gen_matches s numTrials minV minA 0 initialGenState"
    using assms(4,5)
    by (simp add: gen_matches_def gen_shape_initial gen_nonnull_initial gen_count_initial)
       (simp add: gen_force_def initialGenState_def)
  have "gen_matches s numTrials minV minA (max 0 numTrials) st"
    using init assms(1)
    by (rule genLoop_invariant [where I = "gen_matches s numTrials minV minA", rotated 1])
       (blast intro: gen_matches_step)
  with assms(2) have fin: "gen_matches s numTrials minV minA numTrials st" by (simp add: max_def)
  then show "int (length (sequence st)) = numTrials"
    by (simp add: gen_matches_def gen_shape_def)
  from fin assms(3) show
    "gameMode s \<noteq> Audio \<longrightarrow> minV \<le> int (visualMatches (nLevel s) (sequence st))"
    "gameMode s \<noteq> Visual \<longrightarrow> minA \<le> int (audioMatches (nLevel s) (sequence st))"
    by (auto simp: gen_matches_def gen_count_def gen_force_def max_def)
qed

subsection \<open>A random source for the examples\<close>

lemma random_source_cycling: "random_source cycling"
proof -
  have "k mod 3 + 1 < 4" for k :: nat by simp
  then have "rat_of_nat (k mod 3 + 1) < 4" for k :: nat
    using of_nat_less_iff [of "k mod 3 + 1" 4, where ?'a = rat] by simp
  then show ?thesis by (simp add: random_source_def cycling_def)
qed

lemma floor_numeral_divide:
  "\<lfloor>numeral a / numeral b :: rat\<rfloor> = numeral a div numeral b"
  using floor_divide_of_int_eq [of "numeral a" "numeral b", where ?'a = rat] by simp

lemma cycling_draws:
  "fst (getRandomVisual Dual cycling (3 * k)) = Some 2"
  "fst (getRandomVisual Dual cycling (Suc (3 * k))) = Some 4"
  "fst (getRandomAudio Dual cycling (3 * k)) = Some ''K''"
  "fst (getRandomAudio Dual cycling (Suc (3 * k))) = Some ''Q''"
  by (simp_all add: getRandomVisual_def getRandomAudio_def cycling_def GRID_CELL_COUNT_def
      GRID_SIZE_def AUDIO_LETTERS_def floor_numeral_divide mod_Suc)

lemma redraws_end_cycling: "redraws_end cycling"
  unfolding redraws_end_def
proof (intro conjI allI)
  fix k :: nat and v :: "int option"
  show "\<exists>j\<ge>k. fst (getRandomVisual Dual cycling j) \<noteq> v"
  proof (cases "v = Some 2")
    case True
    then have "fst (getRandomVisual Dual cycling (Suc (3 * k))) \<noteq> v"
      by (simp add: cycling_draws)
    then show ?thesis by (intro exI [of _ "Suc (3 * k)"]) simp
  next
    case False
    then have "fst (getRandomVisual Dual cycling (3 * k)) \<noteq> v"
      by (simp add: cycling_draws)
    then show ?thesis by (intro exI [of _ "3 * k"]) simp
  qed
next
  fix k :: nat and a :: "string option"
  show "\<exists>j\<ge>k. fst (getRandomAudio Dual cycling j) \<noteq> a"
  proof (cases "a = Some ''K''")
    case True
    then have "fst (getRandomAudio Dual cycling (Suc (3 * k))) \<noteq> a"
      by (simp add: cycling_draws)
    then show ?thesis by (intro exI [of _ "Suc (3 * k)"]) simp
  next
    case False
    then have "fst (getRandomAudio Dual cycling (3 * k)) \<noteq> a"
      by (simp add: cycling_draws)
    then show ?thesis by (intro exI [of _ "3 * k"]) simp
  qed
qed

subsection \<open>The generated sequence\<close>

lemma generateRun_returns:
  assumes "redraws_end rnd" and "1 \<le> nLevel s"
  shows "\<exists>st. generateRun s rnd = Some (Inr st)"
  using genLoop_returns [OF assms gen_shape_initial]
  by (simp add: generateRun_def Let_def)


lemma generateSequence_Inr:
  "generateSequence s rnd = Some (Inr sq) \<longleftrightarrow>
     (\<exists>st. generateRun s rnd = Some (Inr st) \<and> sq = sequence st)"
  by (auto simp: generateSequence_def split: option.splits sum.splits)




lemma minMatches_120: "minMatches 120 = 12"
  by (simp add: minMatches_def)

text \<open>
  Claim C1. For a session of 120 seconds with the default timing (stimulus 1500 ms,
  interval 2500 ms, hence 30 trials) and N = 2, in every game mode and for every random
  source: every sequence that \<^verbatim>\<open>generateSequence\<close> returns has 30 trials and, on each
  channel the mode enables, at least \<open>ceil(120 / 30 * 3) = 12\<close> indices \<open>i \<ge> 2\<close> whose value
  is not null and equals the value at \<open>i - 2\<close>. The matches are counted on the returned
  sequence (\<open>visualMatches\<close>, \<open>audioMatches\<close>), not read from the counters of the loop.
  The generator does return a sequence whenever its redraw loops end on the random source.
\<close>

theorem generateSequence_minimum_matches:
  assumes "random_source rnd"
    and "sessionDuration s = 120" and "stimulusDuration s = 1500"
    and "interStimulusInterval s = 2500" and "nLevel s = 2"
  shows "(redraws_end rnd \<longrightarrow> (\<exists>sq. generateSequence s rnd = Some (Inr sq))) \<and>
         (\<forall>sq. generateSequence s rnd = Some (Inr sq) \<longrightarrow>
            length sq = 30 \<and>
            (gameMode s \<noteq> Audio \<longrightarrow> 12 \<le> visualMatches 2 sq) \<and>
            (gameMode s \<noteq> Visual \<longrightarrow> 12 \<le> audioMatches 2 sq))"
proof -
  have returns: "\<exists>sq. generateSequence s rnd = Some (Inr sq)" if "redraws_end rnd"
    using that assms(5) generateRun_returns [of rnd s] by (auto simp: generateSequence_Inr)
  have enough: "length sq = 30 \<and>
      (gameMode s \<noteq> Audio \<longrightarrow> 12 \<le> visualMatches 2 sq) \<and>
      (gameMode s \<noteq> Visual \<longrightarrow> 12 \<le> audioMatches 2 sq)"
    if "generateSequence s rnd = Some (Inr sq)" for sq
  proof -
    from that obtain st where st: "generateRun s rnd = Some (Inr st)" and sq: "sq = sequence st"
      by (auto simp: generateSequence_Inr)
    let ?minV = "if gameMode s \<noteq> Audio then 12 else 0 :: int"
    let ?minA = "if gameMode s \<noteq> Visual then 12 else 0 :: int"
    from st assms(2-5) have loop: "genLoop s rnd 30 ?minV ?minA 0 initialGenState = Some (Inr st)"
      by (simp add: generateRun_def Let_def minMatches_120 cong: if_cong)
    have a: "(0::int) \<le> 30" "nLevel s \<le> 30"
      "gameMode s \<noteq> Audio \<longrightarrow> 2 * ?minV \<le> 30 - max 0 (nLevel s) + 1"
      "gameMode s \<noteq> Visual \<longrightarrow> 2 * ?minA \<le> 30 - max 0 (nLevel s) + 1"
      using assms(5) by simp_all
    note m = genLoop_matches [OF loop a]
    from m(1) have "length sq = 30" by (simp add: sq)
    moreover from m(2) assms(5) have "gameMode s \<noteq> Audio \<longrightarrow> 12 \<le> visualMatches 2 sq"
      by (simp add: sq)
    moreover from m(3) assms(5) have "gameMode s \<noteq> Visual \<longrightarrow> 12 \<le> audioMatches 2 sq"
      by (simp add: sq)
    ultimately show ?thesis by simp
  qed
  from returns enough show ?thesis by blast
qed

text \<open>
  The hypotheses of C1 at the default settings (Dual mode) and the random source \<open>cycling\<close>.
\<close>

theorem generateSequence_minimum_matches_witness:
  "random_source cycling \<and> redraws_end cycling \<and>
   (\<exists>sq. generateSequence DEFAULT_SETTINGS cycling = Some (Inr sq) \<and>
      length sq = 30 \<and> 12 \<le> visualMatches 2 sq \<and> 12 \<le> audioMatches 2 sq)"
  using generateSequence_minimum_matches [of cycling DEFAULT_SETTINGS]
    random_source_cycling redraws_end_cycling
  by (auto simp: DEFAULT_SETTINGS_def)

text \<open>
  Claim C9. For every random source and every run of the generator that returns, at every
  index \<open>i \<ge> N\<close> of the sequence at which the generator did not take the match branch on an
  enabled channel, the value at \<open>i\<close> on that channel and the value at \<open>i - N\<close> are not null
  and differ. The sequence is the one \<^verbatim>\<open>generateSequence\<close> returns, and the generator does
  return for \<open>N \<ge> 1\<close> whenever its redraw loops end on the random source.
\<close>

theorem generateRun_no_self_collision:
  assumes "random_source rnd"
  shows "(redraws_end rnd \<and> 1 \<le> nLevel s \<longrightarrow> (\<exists>st. generateRun s rnd = Some (Inr st))) \<and>
         (\<forall>st i. generateRun s rnd = Some (Inr st) \<longrightarrow>
            nLevel s \<le> int i \<longrightarrow> i < length (sequence st) \<longrightarrow>
            generateSequence s rnd = Some (Inr (sequence st)) \<and>
            (gameMode s \<noteq> Audio \<and> \<not> visualIntended st ! i \<longrightarrow>
               visualPosition (sequence st ! i) \<noteq> None \<and>
               visualPosition (sequence st ! nat (int i - nLevel s)) \<noteq> None \<and>
               visualPosition (sequence st ! i) \<noteq>
                 visualPosition (sequence st ! nat (int i - nLevel s))) \<and>
            (gameMode s \<noteq> Visual \<and> \<not> audioIntended st ! i \<longrightarrow>
               audioLetter (sequence st ! i) \<noteq> None \<and>
               audioLetter (sequence st ! nat (int i - nLevel s)) \<noteq> None \<and>
               audioLetter (sequence st ! i) \<noteq>
                 audioLetter (sequence st ! nat (int i - nLevel s))))"
proof (intro conjI allI impI)
  assume "redraws_end rnd \<and> 1 \<le> nLevel s"
  then show "\<exists>st. generateRun s rnd = Some (Inr st)"
    using generateRun_returns [of rnd s] by simp
next
  fix st i
  assume run: "generateRun s rnd = Some (Inr st)"
    and ni: "nLevel s \<le> int i" and il: "i < length (sequence st)"
  from run show "generateSequence s rnd = Some (Inr (sequence st))"
    by (simp add: generateSequence_def)
  from generateRun_inv [OF run] obtain k where inv: "gen_inv s k st" ..
  then have nn: "gen_nonnull s st" and nc: "gen_nocollide s st" by (simp_all add: gen_inv_def)
  from nn il have n1: "1 \<le> nLevel s" by (auto simp: gen_nonnull_def)
  with ni il have b: "nat (int i - nLevel s) < length (sequence st)" by linarith
  {
    assume "gameMode s \<noteq> Audio \<and> \<not> visualIntended st ! i"
    then have gm: "gameMode s \<noteq> Audio" and ni': "\<not> visualIntended st ! i" by simp_all
    from nn gm il b have "visualPosition (sequence st ! i) \<noteq> None"
      "visualPosition (sequence st ! nat (int i - nLevel s)) \<noteq> None"
      by (simp_all add: gen_nonnull_def)
    moreover from nc ni il gm ni' have
      "visualPosition (sequence st ! i) \<noteq> visualPosition (sequence st ! nat (int i - nLevel s))"
      by (simp add: gen_nocollide_def)
    ultimately show "visualPosition (sequence st ! i) \<noteq> None"
      "visualPosition (sequence st ! nat (int i - nLevel s)) \<noteq> None"
      "visualPosition (sequence st ! i) \<noteq> visualPosition (sequence st ! nat (int i - nLevel s))"
      by simp_all
  }
  {
    assume "gameMode s \<noteq> Visual \<and> \<not> audioIntended st ! i"
    then have gm: "gameMode s \<noteq> Visual" and ni': "\<not> audioIntended st ! i" by simp_all
    from nn gm il b have "audioLetter (sequence st ! i) \<noteq> None"
      "audioLetter (sequence st ! nat (int i - nLevel s)) \<noteq> None"
      by (simp_all add: gen_nonnull_def)
    moreover from nc ni il gm ni' have
      "audioLetter (sequence st ! i) \<noteq> audioLetter (sequence st ! nat (int i - nLevel s))"
      by (simp add: gen_nocollide_def)
    ultimately show "audioLetter (sequence st ! i) \<noteq> None"
      "audioLetter (sequence st ! nat (int i - nLevel s)) \<noteq> None"
      "audioLetter (sequence st ! i) \<noteq> audioLetter (sequence st ! nat (int i - nLevel s))"
      by simp_all
  }
qed

lemma generateRun_shortSession: "generateRun shortSession cycling = Some (Inr shortRun)"
  by code_simp

text \<open>
  C9 at index 4 of a five-trial session: neither channel was meant to match, and both
  values differ from the ones at index 2.
\<close>

theorem generateRun_no_self_collision_witness:
  "random_source cycling \<and> redraws_end cycling \<and> 1 \<le> nLevel shortSession \<and>
   generateRun shortSession cycling = Some (Inr shortRun) \<and>
   generateSequence shortSession cycling = Some (Inr (sequence shortRun)) \<and>
   nLevel shortSession \<le> int 4 \<and> 4 < length (sequence shortRun) \<and>
   gameMode shortSession = Dual \<and>
   \<not> visualIntended shortRun ! 4 \<and> \<not> audioIntended shortRun ! 4 \<and>
   visualPosition (sequence shortRun ! 4) = Some 6 \<and>
   visualPosition (sequence shortRun ! 2) = Some 2 \<and>
   audioLetter (sequence shortRun ! 4) = Some ''S'' \<and>
   audioLetter (sequence shortRun ! 2) = Some ''Q''"
  using generateRun_no_self_collision
      [of cycling shortSession, OF random_source_cycling, THEN conjunct2, rule_format,
       of shortRun 4]
    random_source_cycling redraws_end_cycling generateRun_shortSession
  by (simp add: shortSession_def shortRun_def DEFAULT_SETTINGS_def)

subsection \<open>Scoring\<close>

lemma deriveMetrics_init: "deriveMetrics initResultCounters = zeroMetrics"
  by (simp add: deriveMetrics_def initResultCounters_def zeroMetrics_def)

lemma deriveMetrics_finite: "isFiniteNumber (rate (deriveMetrics r))"
  by (simp add: deriveMetrics_def Let_def jsDivide_def times100_def isFiniteNumber_def)

lemma calculateResults_finite:
  assumes "calculateResults s st = Inr res"
  shows "isFiniteNumber (overallSuccessRate res)"
    and "resVisual res = Some m \<Longrightarrow> isFiniteNumber (rate m)"
    and "resAudio res = Some m \<Longrightarrow> isFiniteNumber (rate m)"
proof -
  from assms obtain vc ac where
    res: "res =
      \<lparr>resSettings = s, totalTrials = int (length (stimulusSequence st)),
       resVisual = map_option deriveMetrics vc, resAudio = map_option deriveMetrics ac,
       overallSuccessRate =
         (if 0 < (case map_option deriveMetrics vc of None \<Rightarrow> 0 | Some r \<Rightarrow> totalMatches r) +
                 (case map_option deriveMetrics ac of None \<Rightarrow> 0 | Some r \<Rightarrow> totalMatches r)
          then times100
                 (jsDivide
                    ((case map_option deriveMetrics vc of None \<Rightarrow> 0 | Some r \<Rightarrow> hits r) +
                     (case map_option deriveMetrics ac of None \<Rightarrow> 0 | Some r \<Rightarrow> hits r))
                    ((case map_option deriveMetrics vc of None \<Rightarrow> 0 | Some r \<Rightarrow> totalMatches r) +
                     (case map_option deriveMetrics ac of None \<Rightarrow> 0 | Some r \<Rightarrow> totalMatches r)))
          else Number 0)\<rparr>"
    by (auto simp: calculateResults_def Let_def split: sum.splits prod.splits)
  show "isFiniteNumber (overallSuccessRate res)"
    by (simp add: res jsDivide_def times100_def isFiniteNumber_def)
  show "isFiniteNumber (rate m)" if "resVisual res = Some m"
    using that deriveMetrics_finite by (auto simp: res)
  show "isFiniteNumber (rate m)" if "resAudio res = Some m"
    using that deriveMetrics_finite by (auto simp: res)
qed

text \<open>
  Claim C7. When N is at least the length of the sequence, \<^verbatim>\<open>calculateResults\<close> returns
  (no error, and the loop body is never entered): every enabled channel reports
  \<open>totalMatches = hits = misses = falseAlarms = errors = 0\<close> and \<open>rate = 100\<close>, a disabled
  channel reports no metrics, and the overall success rate is 0. No division by zero is
  evaluated: a division by zero would make a rate \<^verbatim>\<open>NaN\<close> or infinite, and the rates are
  the numbers 100 and 0. The same holds of every call: whatever the settings and the
  state, the overall rate and the rate of each channel are finite numbers.
\<close>

theorem calculateResults_short_sequence:
  assumes "int (length (stimulusSequence st)) \<le> nLevel s"
  shows "calculateResults s st =
           Inr \<lparr>resSettings = s, totalTrials = int (length (stimulusSequence st)),
                resVisual = (if gameMode s \<noteq> Audio then Some zeroMetrics else None),
                resAudio = (if gameMode s \<noteq> Visual then Some zeroMetrics else None),
                overallSuccessRate = Number 0\<rparr> \<and>
         (\<forall>s' st' res m. calculateResults s' st' = Inr res \<longrightarrow>
            isFiniteNumber (overallSuccessRate res) \<and>
            (resVisual res = Some m \<longrightarrow> isFiniteNumber (rate m)) \<and>
            (resAudio res = Some m \<longrightarrow> isFiniteNumber (rate m)))"
proof -
  from assms have "calcLoop s st (nLevel s) r = Inr r" for r
    by (cases r) (simp add: calcLoop.simps)
  then have "calculateResults s st =
      Inr \<lparr>resSettings = s, totalTrials = int (length (stimulusSequence st)),
           resVisual = (if gameMode s \<noteq> Audio then Some zeroMetrics else None),
           resAudio = (if gameMode s \<noteq> Visual then Some zeroMetrics else None),
           overallSuccessRate = Number 0\<rparr>"
    by (simp add: calculateResults_def Let_def deriveMetrics_init)
       (simp add: zeroMetrics_def)
  with calculateResults_finite show ?thesis by blast
qed

text \<open>
  C7 for N = 3 on a sequence of three trials. The unguarded quotient \<open>0 / 0 * 100\<close> is
  not a finite number.
\<close>

theorem calculateResults_short_sequence_witness:
  "int (length (stimulusSequence (atTrial Running (DEFAULT_SETTINGS\<lparr>nLevel := 3\<rparr>) threeTrials 2)))
     \<le> nLevel (DEFAULT_SETTINGS\<lparr>nLevel := 3\<rparr>) \<and>
   calculateResults (DEFAULT_SETTINGS\<lparr>nLevel := 3\<rparr>)
     (atTrial Running (DEFAULT_SETTINGS\<lparr>nLevel := 3\<rparr>) threeTrials 2) =
     Inr \<lparr>resSettings = DEFAULT_SETTINGS\<lparr>nLevel := 3\<rparr>, totalTrials = 3,
          resVisual = Some zeroMetrics, resAudio = Some zeroMetrics,
          overallSuccessRate = Number 0\<rparr> \<and>
   isFiniteNumber (Number 0) \<and> isFiniteNumber (rate zeroMetrics) \<and>
   \<not> isFiniteNumber (times100 (jsDivide 0 0))"
  using calculateResults_short_sequence
    [of "atTrial Running (DEFAULT_SETTINGS\<lparr>nLevel := 3\<rparr>) threeTrials 2"
        "DEFAULT_SETTINGS\<lparr>nLevel := 3\<rparr>"]
  by (simp add: atTrial_def threeTrials_def DEFAULT_SETTINGS_def isFiniteNumber_def
      zeroMetrics_def jsDivide_def times100_def)

subsection \<open>The reducer\<close>

text \<open>
  Claim C8. From every state STOP_GAME yields status \<open>Idle\<close>, score 0, \<open>currentTrial = -1\<close>,
  elapsed time 0, one unanswered response slot for every element of the sequence, no
  active visual or audio stimulus, no feedback, \<open>showFeedbackUntil = 0\<close> and no results;
  the settings and the sequence stay.
\<close>

theorem stop_game_resets:
  "gameReducer now st STOP_GAME =
     Inr (st\<lparr>status := Idle, score := 0, currentTrial := - 1, elapsedTime := 0,
           userResponses := emptyResponses (length (stimulusSequence st)),
           activeVisualStimulus := None, activeAudioStimulus := None,
           feedback := \<lparr>fbVisual = None, fbAudio = None\<rparr>,
           showFeedbackUntil := 0, results := None\<rparr>) \<and>
   (\<forall>i. 0 \<le> i \<and> i < int (length (stimulusSequence st)) \<longrightarrow>
      emptyResponses (length (stimulusSequence st)) i =
        Some \<lparr>respVisual = None, respAudio = None\<rparr>)"
  by (simp add: noFeedback_def emptyResponses_def unanswered_def)

text \<open>
  C8 in the middle of a session: at trial 2, after a correct visual response (score 1).
\<close>

theorem stop_game_resets_witness:
  "gameReducer 0
     (atTrial Running DEFAULT_SETTINGS threeTrials 2
        \<lparr>score := 1,
          userResponses := (emptyResponses 3)
            (2 \<mapsto> \<lparr>respVisual = Some True, respAudio = None\<rparr>),
          feedback := \<lparr>fbVisual = Some Correct, fbAudio = None\<rparr>,
          showFeedbackUntil := 9500\<rparr>) STOP_GAME =
     Inr (atTrial Idle DEFAULT_SETTINGS threeTrials (- 1)
            \<lparr>activeVisualStimulus := None, activeAudioStimulus := None\<rparr>) \<and>
   emptyResponses 3 2 = Some \<lparr>respVisual = None, respAudio = None\<rparr>"
  using stop_game_resets
    [of 0 "atTrial Running DEFAULT_SETTINGS threeTrials 2
        \<lparr>score := 1,
          userResponses := (emptyResponses 3)
            (2 \<mapsto> \<lparr>respVisual = Some True, respAudio = None\<rparr>),
          feedback := \<lparr>fbVisual = Some Correct, fbAudio = None\<rparr>,
          showFeedbackUntil := 9500\<rparr>"]
  by (simp add: atTrial_def threeTrials_def noFeedback_def emptyResponses_def unanswered_def)

lemma nextTrial_results:
  "nextTrial t a st = Inr st' \<Longrightarrow> results st' = results st"
  by (auto simp: nextTrial_def Let_def split: if_splits sum.splits option.splits prod.splits)

lemma registerResponse_results:
  "registerResponse rt t st = Inr st' \<Longrightarrow> results st' = results st"
  unfolding registerResponse_def Let_def
  by (auto split: if_splits sum.splits option.splits)

lemma results_only_end_session:
  assumes "act \<noteq> END_SESSION" and "gameReducer now st act = Inr st'"
  shows "results st' = results st \<or> results st' = None"
  using assms
  by (cases act)
     (auto simp: initialState_def dest: nextTrial_results registerResponse_results
        split: if_splits)

text \<open>
  Claim C6. In a running state, when the next index \<open>currentTrial + 1\<close> is not inside the
  sequence, NEXT_TRIAL sets the status to \<open>Finished\<close> and changes no other field; in
  particular \<open>results\<close> keeps its value and no results are computed. No event of the
  reducer other than END_SESSION stores results: every other event keeps the field or
  clears it.
\<close>

theorem next_trial_exhausted:
  assumes "status st = Running"
    and "int (length (stimulusSequence st)) \<le> currentTrial st + 1"
  shows "gameReducer now st (NEXT_TRIAL currentTime a) = Inr (st\<lparr>status := Finished\<rparr>) \<and>
         results (st\<lparr>status := Finished\<rparr>) = results st \<and>
         (\<forall>act now' st1 st2. act \<noteq> END_SESSION \<longrightarrow> gameReducer now' st1 act = Inr st2 \<longrightarrow>
            results st2 = results st1 \<or> results st2 = None)"
  using assms results_only_end_session by (auto simp: nextTrial_def)

text \<open>
  C6 at the last trial of \<open>threeTrials\<close>.
\<close>

theorem next_trial_exhausted_witness:
  "status (atTrial Running DEFAULT_SETTINGS threeTrials 2) = Running \<and>
   int (length (stimulusSequence (atTrial Running DEFAULT_SETTINGS threeTrials 2)))
     \<le> currentTrial (atTrial Running DEFAULT_SETTINGS threeTrials 2) + 1 \<and>
   gameReducer 0 (atTrial Running DEFAULT_SETTINGS threeTrials 2)
     (NEXT_TRIAL 12000 DEFAULT_SETTINGS) =
     Inr (atTrial Finished DEFAULT_SETTINGS threeTrials 2) \<and>
   results (atTrial Finished DEFAULT_SETTINGS threeTrials 2) = None"
  using next_trial_exhausted
    [of "atTrial Running DEFAULT_SETTINGS threeTrials 2" 0 12000 DEFAULT_SETTINGS]
  by (simp add: atTrial_def threeTrials_def)

lemma resolveMiss_eq:
  assumes "nLevel s \<le> currentTrial st"
    and "element (stimulusSequence st) (currentTrial st) = Some prev"
    and "element (stimulusSequence st) (currentTrial st - nLevel s) = Some nb"
    and "userResponses st (currentTrial st) = Some r"
  shows "resolveMiss s st =
     Inr (\<lparr>fbVisual = (if visualMissed s prev nb r then Some Miss else None),
           fbAudio = (if audioMissed s prev nb r then Some Miss else None)\<rparr>,
          (if visualMissed s prev nb r then - 1 else 0) +
          (if audioMissed s prev nb r then - 1 else 0))"
proof -
  have v: "missVisual s (Some prev) (Some nb) (Some r) =
      Inr (if visualMissed s prev nb r then Some Miss else None)"
    by (auto simp: missVisual_def visualMissed_def determineMissFeedback_def)
  have a: "missAudio s (Some prev) (Some nb) (Some r) =
      Inr (if audioMissed s prev nb r then Some Miss else None)"
    by (auto simp: missAudio_def audioMissed_def determineMissFeedback_def)
  from assms show ?thesis
    by (simp add: resolveMiss_def Let_def v a)
qed

text \<open>
  Claim C2. In a running state with settings \<open>s\<close> and \<open>currentTrial \<ge> N\<close>, when the next
  index is inside the sequence, NEXT_TRIAL (carrying the same settings) resolves the misses
  of the trial at \<open>currentTrial\<close>: on each enabled channel whose value at \<open>currentTrial\<close> is
  not null, equals the value N trials back, and whose recorded response is not pressed,
  the feedback becomes \<open>Miss\<close> and the score goes down by one. The stimulus at the next
  index becomes the active visual and audio stimulus, \<open>currentTrial\<close> becomes the next
  index, and a miss is shown until \<open>currentTime + FEEDBACK_DURATION_MS\<close> (otherwise the
  timestamp is 0). The trial, its N-back predecessor and its response slot exist, and the
  letter of the next stimulus is not the empty string, as in every sequence the generator
  builds.
\<close>

theorem next_trial_resolves_miss:
  assumes "settings st = Some s" and "status st = Running"
    and "nLevel s \<le> currentTrial st"
    and "element (stimulusSequence st) (currentTrial st + 1) = Some nxt"
    and "element (stimulusSequence st) (currentTrial st) = Some prev"
    and "element (stimulusSequence st) (currentTrial st - nLevel s) = Some nb"
    and "userResponses st (currentTrial st) = Some r"
    and "audioLetter nxt \<noteq> Some []"
  shows "gameReducer now st (NEXT_TRIAL currentTime s) =
     Inr (st\<lparr>score := score st
                  - (if visualMissed s prev nb r then 1 else 0)
                  - (if audioMissed s prev nb r then 1 else 0),
            currentTrial := currentTrial st + 1,
            activeVisualStimulus := visualPosition nxt,
            activeAudioStimulus := audioLetter nxt,
            feedback :=
              \<lparr>fbVisual = (if visualMissed s prev nb r then Some Miss else None),
               fbAudio = (if audioMissed s prev nb r then Some Miss else None)\<rparr>,
            showFeedbackUntil :=
              (if visualMissed s prev nb r \<or> audioMissed s prev nb r
               then currentTime + FEEDBACK_DURATION_MS else 0)\<rparr>)"
proof -
  from assms(4) have lt: "\<not> int (length (stimulusSequence st)) \<le> currentTrial st + 1"
    by (simp add: element_def split: if_splits)
  from assms(8) have tl: "truthyLetter (audioLetter nxt) = audioLetter nxt"
    by (cases "audioLetter nxt") (simp_all add: truthyLetter_def)
  note rm = resolveMiss_eq [OF assms(3) assms(5) assms(6) assms(7)]
  show ?thesis
    by (simp add: nextTrial_def Let_def lt rm assms(4) tl noFeedback_def)
qed

text \<open>
  C2 at trial 2 of a six-trial sequence: the visual value repeats the one two trials back
  and no response was given, so the visual channel shows a miss and the score drops from 0
  to - 1.
\<close>

theorem next_trial_resolves_miss_witness:
  "gameReducer 0 (atTrial Running DEFAULT_SETTINGS (threeTrials @ threeTrials) 2)
     (NEXT_TRIAL 12000 DEFAULT_SETTINGS) =
   Inr (atTrial Running DEFAULT_SETTINGS (threeTrials @ threeTrials) 3
          \<lparr>score := - 1,
            feedback := \<lparr>fbVisual = Some Miss, fbAudio = None\<rparr>,
            showFeedbackUntil := 12500\<rparr>)"
  using next_trial_resolves_miss
    [of "atTrial Running DEFAULT_SETTINGS (threeTrials @ threeTrials) 2"
        DEFAULT_SETTINGS
        "\<lparr>visualPosition = Some 1, audioLetter = Some ''C''\<rparr>"
        "\<lparr>visualPosition = Some 1, audioLetter = Some ''K''\<rparr>"
        "\<lparr>visualPosition = Some 1, audioLetter = Some ''C''\<rparr>"
        unanswered 0 12000]
  by (simp add: atTrial_def threeTrials_def DEFAULT_SETTINGS_def element_def
      emptyResponses_def unanswered_def visualMissed_def audioMissed_def
      FEEDBACK_DURATION_MS_def)

text \<open>
  Claim C3. In a running state with settings \<open>s\<close> and \<open>currentTrial \<ge> N\<close>, a response on
  an enabled channel that has no recorded response for the current trial is recorded as
  pressed whatever the outcome; when the current value equals the N-back value on that
  channel (both not null) the feedback of the channel becomes \<open>Correct\<close> and the score
  goes up by one, otherwise the feedback becomes \<open>FalseAlarm\<close> and the score goes down by
  one; the feedback is shown until \<open>currentTime + FEEDBACK_DURATION_MS\<close>. Nothing else
  changes.
\<close>

theorem register_response_accepted:
  assumes "settings st = Some s" and "status st = Running"
    and "nLevel s \<le> currentTrial st"
    and "element (stimulusSequence st) (currentTrial st) = Some cur"
    and "element (stimulusSequence st) (currentTrial st - nLevel s) = Some nb"
    and "userResponses st (currentTrial st) = Some r"
  shows "(gameMode s \<noteq> Audio \<and> respVisual r = None \<longrightarrow>
            gameReducer now st (REGISTER_RESPONSE VisualResponse currentTime a) =
              Inr (st\<lparr>score := score st + (if visualTrueMatch cur nb then 1 else - 1),
                     userResponses := (userResponses st)
                       (currentTrial st \<mapsto> r\<lparr>respVisual := Some True\<rparr>),
                     feedback := (feedback st)
                       \<lparr>fbVisual := Some (if visualTrueMatch cur nb then Correct else FalseAlarm)\<rparr>,
                     showFeedbackUntil := currentTime + FEEDBACK_DURATION_MS\<rparr>)) \<and>
         (gameMode s \<noteq> Visual \<and> respAudio r = None \<longrightarrow>
            gameReducer now st (REGISTER_RESPONSE AudioResponse currentTime a) =
              Inr (st\<lparr>score := score st + (if audioTrueMatch cur nb then 1 else - 1),
                     userResponses := (userResponses st)
                       (currentTrial st \<mapsto> r\<lparr>respAudio := Some True\<rparr>),
                     feedback := (feedback st)
                       \<lparr>fbAudio := Some (if audioTrueMatch cur nb then Correct else FalseAlarm)\<rparr>,
                     showFeedbackUntil := currentTime + FEEDBACK_DURATION_MS\<rparr>))"
proof (intro conjI impI)
  assume "gameMode s \<noteq> Audio \<and> respVisual r = None"
  with assms show "gameReducer now st (REGISTER_RESPONSE VisualResponse currentTime a) =
      Inr (st\<lparr>score := score st + (if visualTrueMatch cur nb then 1 else - 1),
             userResponses := (userResponses st)
               (currentTrial st \<mapsto> r\<lparr>respVisual := Some True\<rparr>),
             feedback := (feedback st)
               \<lparr>fbVisual := Some (if visualTrueMatch cur nb then Correct else FalseAlarm)\<rparr>,
             showFeedbackUntil := currentTime + FEEDBACK_DURATION_MS\<rparr>)"
    by (auto simp: registerResponse_def Let_def alreadyRecorded_def determineFeedback_def
        visualTrueMatch_def)
next
  assume "gameMode s \<noteq> Visual \<and> respAudio r = None"
  with assms show "gameReducer now st (REGISTER_RESPONSE AudioResponse currentTime a) =
      Inr (st\<lparr>score := score st + (if audioTrueMatch cur nb then 1 else - 1),
             userResponses := (userResponses st)
               (currentTrial st \<mapsto> r\<lparr>respAudio := Some True\<rparr>),
             feedback := (feedback st)
               \<lparr>fbAudio := Some (if audioTrueMatch cur nb then Correct else FalseAlarm)\<rparr>,
             showFeedbackUntil := currentTime + FEEDBACK_DURATION_MS\<rparr>)"
    by (auto simp: registerResponse_def Let_def alreadyRecorded_def determineFeedback_def
        audioTrueMatch_def)
qed

text \<open>
  C3 at trial 2 of \<open>threeTrials\<close>: the visual value repeats (correct), the audio
  letter does not (false alarm).
\<close>

theorem register_response_accepted_witness:
  "gameReducer 0 (atTrial Running DEFAULT_SETTINGS threeTrials 2)
     (REGISTER_RESPONSE VisualResponse 9000 DEFAULT_SETTINGS) =
   Inr (atTrial Running DEFAULT_SETTINGS threeTrials 2
          \<lparr>score := 1,
            userResponses := (emptyResponses 3)(2 \<mapsto> \<lparr>respVisual = Some True, respAudio = None\<rparr>),
            feedback := \<lparr>fbVisual = Some Correct, fbAudio = None\<rparr>,
            showFeedbackUntil := 9500\<rparr>) \<and>
   gameReducer 0 (atTrial Running DEFAULT_SETTINGS threeTrials 2)
     (REGISTER_RESPONSE AudioResponse 9000 DEFAULT_SETTINGS) =
   Inr (atTrial Running DEFAULT_SETTINGS threeTrials 2
          \<lparr>score := - 1,
            userResponses := (emptyResponses 3)(2 \<mapsto> \<lparr>respVisual = None, respAudio = Some True\<rparr>),
            feedback := \<lparr>fbVisual = None, fbAudio = Some FalseAlarm\<rparr>,
            showFeedbackUntil := 9500\<rparr>)"
  using register_response_accepted
    [of "atTrial Running DEFAULT_SETTINGS threeTrials 2" DEFAULT_SETTINGS
        "\<lparr>visualPosition = Some 1, audioLetter = Some ''K''\<rparr>"
        "\<lparr>visualPosition = Some 1, audioLetter = Some ''C''\<rparr>"
        unanswered 0 9000 DEFAULT_SETTINGS]
  by (simp add: atTrial_def threeTrials_def DEFAULT_SETTINGS_def element_def
      emptyResponses_def unanswered_def visualTrueMatch_def audioTrueMatch_def
      FEEDBACK_DURATION_MS_def noFeedback_def)

text \<open>
  Claim C10. With settings present, \<open>currentTrial \<ge> N\<close> and no response recorded on the
  channel, a REGISTER_RESPONSE for a channel that the game mode disables (visual in Audio
  mode, audio in Visual mode) changes neither the score nor the feedback nor
  \<open>showFeedbackUntil\<close>, and the slot stays as it was: the response is not recorded as
  pressed. The whole state is unchanged.
\<close>

theorem register_response_disabled_channel:
  assumes "settings st = Some s"
    and "rt = VisualResponse \<and> gameMode s = Audio \<or> rt = AudioResponse \<and> gameMode s = Visual"
    and "nLevel s \<le> currentTrial st"
    and "userResponses st (currentTrial st) = Some r" and "channelResponse rt r = None"
  shows "\<exists>st'. gameReducer now st (REGISTER_RESPONSE rt currentTime a) = Inr st' \<and>
           score st' = score st \<and> feedback st' = feedback st \<and>
           showFeedbackUntil st' = showFeedbackUntil st \<and>
           userResponses st' (currentTrial st) = Some r \<and> st' = st"
proof -
  from assms(4) have "(userResponses st)(currentTrial st \<mapsto> r) = userResponses st"
    by (rule map_upd_triv)
  with assms show ?thesis
    by (auto simp: registerResponse_def Let_def alreadyRecorded_def channelResponse_def)
qed

text \<open>
  C10 for a visual response in Audio mode.
\<close>

theorem register_response_disabled_channel_witness:
  "gameReducer 0 (atTrial Running (DEFAULT_SETTINGS\<lparr>gameMode := Audio\<rparr>) audioTrials 2)
     (REGISTER_RESPONSE VisualResponse 9000 (DEFAULT_SETTINGS\<lparr>gameMode := Audio\<rparr>)) =
   Inr (atTrial Running (DEFAULT_SETTINGS\<lparr>gameMode := Audio\<rparr>) audioTrials 2) \<and>
   userResponses (atTrial Running (DEFAULT_SETTINGS\<lparr>gameMode := Audio\<rparr>) audioTrials 2) 2 =
     Some unanswered \<and>
   channelResponse VisualResponse unanswered = None"
  using register_response_disabled_channel
    [of "atTrial Running (DEFAULT_SETTINGS\<lparr>gameMode := Audio\<rparr>) audioTrials 2"
        "DEFAULT_SETTINGS\<lparr>gameMode := Audio\<rparr>" VisualResponse unanswered 0 9000
        "DEFAULT_SETTINGS\<lparr>gameMode := Audio\<rparr>"]
  by (simp add: atTrial_def audioTrials_def DEFAULT_SETTINGS_def emptyResponses_def
      unanswered_def channelResponse_def)

text \<open>
  Claim C4, as the reducer implements it. With settings present, REGISTER_RESPONSE returns
  the state unchanged whenever the current trial index is below N or the channel already
  has a recorded response for the current trial (a second press), or the trial has no
  response slot. The reducer does not look at the status.
\<close>

theorem register_response_ignored:
  assumes "settings st = Some s"
    and "currentTrial st < nLevel s \<or>
         alreadyRecorded rt (userResponses st (currentTrial st))"
  shows "gameReducer now st (REGISTER_RESPONSE rt currentTime a) = Inr st"
  using assms by (auto simp: registerResponse_def Let_def)

text \<open>
  C4 before the N-back window (trial 1, N = 2) and on a second visual press at trial 2.
\<close>

theorem register_response_ignored_witness:
  "gameReducer 0 (atTrial Running DEFAULT_SETTINGS threeTrials 1)
     (REGISTER_RESPONSE VisualResponse 5000 DEFAULT_SETTINGS) =
     Inr (atTrial Running DEFAULT_SETTINGS threeTrials 1) \<and>
   alreadyRecorded VisualResponse
     (userResponses
        (atTrial Running DEFAULT_SETTINGS threeTrials 2
           \<lparr>userResponses := (emptyResponses 3)
              (2 \<mapsto> \<lparr>respVisual = Some True, respAudio = None\<rparr>)\<rparr>) 2) \<and>
   gameReducer 0
     (atTrial Running DEFAULT_SETTINGS threeTrials 2
        \<lparr>userResponses := (emptyResponses 3)
           (2 \<mapsto> \<lparr>respVisual = Some True, respAudio = None\<rparr>)\<rparr>)
     (REGISTER_RESPONSE VisualResponse 9000 DEFAULT_SETTINGS) =
     Inr (atTrial Running DEFAULT_SETTINGS threeTrials 2
        \<lparr>userResponses := (emptyResponses 3)
           (2 \<mapsto> \<lparr>respVisual = Some True, respAudio = None\<rparr>)\<rparr>)"
  using register_response_ignored
      [of "atTrial Running DEFAULT_SETTINGS threeTrials 1" DEFAULT_SETTINGS VisualResponse 0 5000
          DEFAULT_SETTINGS]
    register_response_ignored
      [of "atTrial Running DEFAULT_SETTINGS threeTrials 2
             \<lparr>userResponses := (emptyResponses 3)
                (2 \<mapsto> \<lparr>respVisual = Some True, respAudio = None\<rparr>)\<rparr>"
          DEFAULT_SETTINGS VisualResponse 0 9000 DEFAULT_SETTINGS]
  by (simp add: atTrial_def DEFAULT_SETTINGS_def alreadyRecorded_def)

lemma finished_reached:
  "dispatchAll 0 initialState
     [START_GAME DEFAULT_SETTINGS threeTrials, RUN_GAME,
      NEXT_TRIAL 0 DEFAULT_SETTINGS, NEXT_TRIAL 4000 DEFAULT_SETTINGS,
      NEXT_TRIAL 8000 DEFAULT_SETTINGS, NEXT_TRIAL 12000 DEFAULT_SETTINGS] =
   Inr (atTrial Finished DEFAULT_SETTINGS threeTrials 2)"
  by (simp add: initialState_def nextTrial_def resolveMiss_def Let_def atTrial_def
      threeTrials_def DEFAULT_SETTINGS_def element_def truthyLetter_def noFeedback_def)

text \<open>
  Claim C4 as stated fails on the status precondition. After START_GAME, RUN_GAME and four
  NEXT_TRIAL events on a sequence of three trials the status is \<open>Finished\<close> and the trial
  index is 2; a REGISTER_RESPONSE on the visual channel is then still applied: the response
  is recorded and the score goes from 0 to 1.
\<close>

theorem register_response_status_counterexample:
  "dispatchAll 0 initialState
     [START_GAME DEFAULT_SETTINGS threeTrials, RUN_GAME,
      NEXT_TRIAL 0 DEFAULT_SETTINGS, NEXT_TRIAL 4000 DEFAULT_SETTINGS,
      NEXT_TRIAL 8000 DEFAULT_SETTINGS, NEXT_TRIAL 12000 DEFAULT_SETTINGS] =
     Inr (atTrial Finished DEFAULT_SETTINGS threeTrials 2) \<and>
   status (atTrial Finished DEFAULT_SETTINGS threeTrials 2) \<noteq> Running \<and>
   gameReducer 0 (atTrial Finished DEFAULT_SETTINGS threeTrials 2)
     (REGISTER_RESPONSE VisualResponse 12100 DEFAULT_SETTINGS) \<noteq>
   Inr (atTrial Finished DEFAULT_SETTINGS threeTrials 2)"
proof -
  have "gameReducer 0 (atTrial Finished DEFAULT_SETTINGS threeTrials 2)
      (REGISTER_RESPONSE VisualResponse 12100 DEFAULT_SETTINGS) =
    Inr (atTrial Finished DEFAULT_SETTINGS threeTrials 2
          \<lparr>score := 1,
            userResponses := (emptyResponses 3)(2 \<mapsto> \<lparr>respVisual = Some True, respAudio = None\<rparr>),
            feedback := \<lparr>fbVisual = Some Correct, fbAudio = None\<rparr>,
            showFeedbackUntil := 12600\<rparr>)"
    by (simp add: registerResponse_def Let_def atTrial_def threeTrials_def
        DEFAULT_SETTINGS_def element_def emptyResponses_def unanswered_def
        alreadyRecorded_def determineFeedback_def FEEDBACK_DURATION_MS_def noFeedback_def)
  moreover have "score (atTrial Finished DEFAULT_SETTINGS threeTrials 2) = 0"
    by (simp add: atTrial_def)
  ultimately show ?thesis
    using finished_reached by (auto simp: atTrial_def dest: arg_cong [where f = score])
qed

end
